theory Spec2Isabelle
  imports Complex_Main
begin

section \<open>The Click: ledger store and game service\<close>

text \<open>
  A shallow embedding of \<^verbatim>\<open>server/database.js\<close> (the ledger store over SQLite) and
  \<^verbatim>\<open>server/services/gameService.js\<close> (\<^verbatim>\<open>handleClick\<close>, \<^verbatim>\<open>performAutoIncrement\<close>).

  \<^item> JavaScript numbers are modelled as exact reals: \<^verbatim>\<open>Math.sqrt\<close> is \<open>sqrt\<close>,
    \<^verbatim>\<open>Math.round(v)\<close> is \<open>\<lfloor>v + 1/2\<rfloor>\<close>, the literal \<^verbatim>\<open>0.001\<close> is \<open>1/1000\<close>. The binary
    rounding of IEEE doubles is not modelled.
  \<^item> The four SQLite tables are lists of rows in insertion order (the AUTOINCREMENT ids are
    the positions); the singleton row \<^verbatim>\<open>id = 1\<close> of \<^verbatim>\<open>jackpot_state\<close> is an option.
  \<^item> Every \<^verbatim>\<open>new Date()\<close> and every \<^verbatim>\<open>Math.random()\<close> the code performs is an explicit
    argument: the ISO string the clock returned, the number in \<open>[0, 1)\<close> the generator drew.
  \<^item> A statement that writes runs on the database and returns the database it leaves
    behind together with either its value or the exception it threw; a \<^verbatim>\<open>db.transaction\<close>
    restores the database it started from when its body throws.
  \<^item> Faults of the storage layer itself (I/O errors, a missing table) are not modelled.
\<close>

subsection \<open>JavaScript primitives\<close>

definition Math_round :: "real \<Rightarrow> real" where
  "Math_round v = of_int \<lfloor>v + 1 / 2\<rfloor>"

definition Math_floor :: "real \<Rightarrow> int" where
  "Math_floor v = \<lfloor>v\<rfloor>"

definition Number_isInteger :: "real \<Rightarrow> bool" where
  "Number_isInteger v = (of_int \<lfloor>v\<rfloor> = v)"

text \<open>\<^verbatim>\<open>new Date().toISOString().split('T')[0]\<close>: the text before the first \<^verbatim>\<open>T\<close>.\<close>

definition isoDate :: "string \<Rightarrow> string" where
  "isoDate text = takeWhile (\<lambda>c. c \<noteq> CHR ''T'') text"

subsection \<open>Tables\<close>

record jackpot_state_row =
  current_amount :: real
  last_update :: string
  last_modified_by :: string
  version :: int

record jackpot_history_row =
  timestamp :: string
  previous_amount :: real
  new_amount :: real
  action_type :: string
  user_id :: string

record daily_target_row =
  target_x :: int
  target_y :: int
  target_date :: string
  target_version :: int

record click_attempts_row =
  attempt_identifier :: string
  attempt_date :: string
  attempt_timestamp :: string

record database =
  jackpot_state :: "jackpot_state_row option"
  jackpot_history :: "jackpot_history_row list"
  daily_target :: "daily_target_row list"
  click_attempts :: "click_attempts_row list"

definition emptyDb :: database where
  "emptyDb = \<lparr>jackpot_state = None, jackpot_history = [], daily_target = [], click_attempts = []\<rparr>"

subsection \<open>Exceptions and transactions\<close>

datatype thrown = JsError string | SqliteConstraintUnique

type_synonym 'a stmt = "database \<Rightarrow> (thrown + 'a) \<times> database"

definition throw :: "thrown \<Rightarrow> 'a stmt" where
  "throw e db = (Inl e, db)"

text \<open>Sequencing of two statements: the second does not run when the first throws.\<close>

definition andThen :: "'a stmt \<Rightarrow> ('a \<Rightarrow> 'b stmt) \<Rightarrow> 'b stmt" where
  "andThen m f db = (case m db of (Inl e, db') \<Rightarrow> (Inl e, db') | (Inr v, db') \<Rightarrow> f v db')"

text \<open>
  \<^verbatim>\<open>db.transaction(fn)()\<close> of better-sqlite3: BEGIN, run \<^verbatim>\<open>fn\<close>, COMMIT; when \<^verbatim>\<open>fn\<close> throws,
  ROLLBACK and throw the same exception again.
\<close>

definition transaction :: "'a stmt \<Rightarrow> 'a stmt" where
  "transaction body db =
     (case body db of (Inl e, db') \<Rightarrow> (Inl e, db) | (Inr v, db') \<Rightarrow> (Inr v, db'))"

subsection \<open>database.js\<close>

text \<open>
  \<^verbatim>\<open>initDb\<close>: the tables are created if they do not exist; the jackpot row and the target
  of the current date are inserted when missing.
\<close>

definition initDb :: "string \<Rightarrow> string \<Rightarrow> real \<Rightarrow> real \<Rightarrow> database \<Rightarrow> database" where
  "initDb now1 now2 rx ry db =
     (let db1 = (case jackpot_state db of
                   None \<Rightarrow> db\<lparr>jackpot_state := Some \<lparr>current_amount = 100, last_update = now1,
                                  last_modified_by = ''system'', version = 1\<rparr>\<rparr>
                 | Some jackpotRow \<Rightarrow> db);
          currentDate = isoDate now2
      in (case find (\<lambda>r. target_date r = currentDate) (daily_target db1) of
            None \<Rightarrow> db1\<lparr>daily_target := daily_target db1 @
                      [\<lparr>target_x = Math_floor (rx * 1000), target_y = Math_floor (ry * 1000),
                        target_date = currentDate, target_version = 1\<rparr>]\<rparr>
          | Some targetRow \<Rightarrow> db1))"

definition getJackpot :: "database \<Rightarrow> real" where
  "getJackpot db = (case jackpot_state db of Some row \<Rightarrow> current_amount row | None \<Rightarrow> 0)"

definition updateJackpot :: "real \<Rightarrow> string \<Rightarrow> string \<Rightarrow> bool stmt" where
  "updateJackpot newAmount userId now db =
     (if newAmount < 0 \<or> newAmount > 10000000 then throw (JsError ''Invalid jackpot amount'') db
      else let roundedAmount = Math_round (newAmount * 1000) / 1000
           in (case jackpot_state db of
                 None \<Rightarrow> (Inr False, db)
               | Some row \<Rightarrow>
                   (Inr True,
                    db\<lparr>jackpot_state := Some (row\<lparr>current_amount := roundedAmount,
                         last_update := now, last_modified_by := userId,
                         version := version row + 1\<rparr>)\<rparr>)))"

definition resetJackpot :: "real \<Rightarrow> string \<Rightarrow> string \<Rightarrow> bool stmt" where
  "resetJackpot baseAmount userId now = updateJackpot baseAmount userId now"

definition logJackpotHistory :: "real \<Rightarrow> real \<Rightarrow> string \<Rightarrow> string \<Rightarrow> string \<Rightarrow> bool stmt" where
  "logJackpotHistory previousAmount newAmount actionType userId now db =
     (Inr True,
      db\<lparr>jackpot_history := jackpot_history db @
           [\<lparr>timestamp = now, previous_amount = previousAmount, new_amount = newAmount,
             action_type = actionType, user_id = userId\<rparr>]\<rparr>)"

record target_pixel =
  pixel_x :: int
  pixel_y :: int
  pixel_date :: string

text \<open>
  \<^verbatim>\<open>getOrCreateDailyTargetPixel\<close> writes when the current date has no row: the INSERT runs
  only in that branch, so the UNIQUE constraint on \<^verbatim>\<open>target_date\<close> cannot fire there.
\<close>

definition getOrCreateDailyTargetPixel ::
    "string \<Rightarrow> real \<Rightarrow> real \<Rightarrow> database \<Rightarrow> target_pixel \<times> database" where
  "getOrCreateDailyTargetPixel now rx ry db =
     (let currentDate = isoDate now
      in (case find (\<lambda>r. target_date r = currentDate) (daily_target db) of
            Some targetRow \<Rightarrow>
              (\<lparr>pixel_x = target_x targetRow, pixel_y = target_y targetRow,
                pixel_date = target_date targetRow\<rparr>, db)
          | None \<Rightarrow>
              (let newX = Math_floor (rx * 1000); newY = Math_floor (ry * 1000)
               in (\<lparr>pixel_x = newX, pixel_y = newY, pixel_date = currentDate\<rparr>,
                   db\<lparr>daily_target := daily_target db @
                        [\<lparr>target_x = newX, target_y = newY, target_date = currentDate,
                          target_version = 1\<rparr>]\<rparr>))))"

text \<open>\<^verbatim>\<open>forceNewDailyTarget\<close>: INSERT ... ON CONFLICT(target_date) DO UPDATE, one statement.\<close>

definition forceNewDailyTarget :: "string \<Rightarrow> real \<Rightarrow> real \<Rightarrow> target_pixel stmt" where
  "forceNewDailyTarget now rx ry db =
     (let currentDate = isoDate now;
          newX = Math_floor (rx * 1000);
          newY = Math_floor (ry * 1000)
      in (Inr \<lparr>pixel_x = newX, pixel_y = newY, pixel_date = currentDate\<rparr>,
          (if list_ex (\<lambda>r. target_date r = currentDate) (daily_target db)
           then db\<lparr>daily_target :=
                  map (\<lambda>r. if target_date r = currentDate
                            then r\<lparr>target_x := newX, target_y := newY,
                                   target_version := target_version r + 1\<rparr>
                            else r) (daily_target db)\<rparr>
           else db\<lparr>daily_target := daily_target db @
                  [\<lparr>target_x = newX, target_y = newY, target_date = currentDate,
                    target_version = 1\<rparr>]\<rparr>)))"

text \<open>\<^verbatim>\<open>recordClickAttempt\<close>: the INSERT fails on UNIQUE(identifier, attempt_date).\<close>

definition recordClickAttempt :: "string \<Rightarrow> string \<Rightarrow> string \<Rightarrow> bool stmt" where
  "recordClickAttempt ident date now db =
     (if list_ex (\<lambda>r. attempt_identifier r = ident \<and> attempt_date r = date) (click_attempts db)
      then throw SqliteConstraintUnique db
      else (Inr True,
            db\<lparr>click_attempts := click_attempts db @
                 [\<lparr>attempt_identifier = ident, attempt_date = date, attempt_timestamp = now\<rparr>]\<rparr>))"

definition hasAttemptedToday :: "string \<Rightarrow> string \<Rightarrow> database \<Rightarrow> bool" where
  "hasAttemptedToday ident date db =
     (find (\<lambda>r. attempt_identifier r = ident \<and> attempt_date r = date) (click_attempts db) \<noteq> None)"

subsection \<open>gameService.js\<close>

datatype error_type = validation | attempt_limit | server_error

text \<open>
  The object \<^verbatim>\<open>handleClick\<close> returns. \<open>ClickError type message\<close> is \<^verbatim>\<open>status: 'error'\<close>;
  \<open>Win distance targetX targetY wonAmount newBaseJackpotAmount\<close> and
  \<open>Miss distance targetX targetY newJackpotAmount\<close> are \<^verbatim>\<open>status: 'success'\<close>.
\<close>

datatype click_result =
    ClickError error_type string
  | Win real int int real real
  | Miss real int int real

text \<open>The clock readings and random draws of one \<^verbatim>\<open>handleClick\<close> call, in source order.\<close>

record click_env =
  click_clock :: string
  target_clock :: string
  target_random_x :: real
  target_random_y :: real
  update_clock :: string
  history_clock :: string
  force_clock :: string
  force_random_x :: real
  force_random_y :: real
  attempt_clock :: string

text \<open>
  The function given to \<^verbatim>\<open>db.transaction\<close> on a win (lines 46 to 53), and the
  transaction made of it.
\<close>

definition winUnit :: "click_env \<Rightarrow> real \<Rightarrow> real \<Rightarrow> string \<Rightarrow> string \<Rightarrow> bool stmt" where
  "winUnit env baseAmount wonAmount userIdentifier today =
     andThen (resetJackpot baseAmount userIdentifier (update_clock env)) (\<lambda>ok.
       if \<not> ok then throw (JsError ''Failed to reset jackpot'')
       else andThen (logJackpotHistory wonAmount baseAmount ''JACKPOT_WIN'' userIdentifier
                       (history_clock env)) (\<lambda>_.
            andThen (forceNewDailyTarget (force_clock env) (force_random_x env)
                       (force_random_y env)) (\<lambda>_.
            recordClickAttempt userIdentifier today (attempt_clock env))))"

definition winTransaction :: "click_env \<Rightarrow> real \<Rightarrow> real \<Rightarrow> string \<Rightarrow> string \<Rightarrow> bool stmt" where
  "winTransaction env baseAmount wonAmount userIdentifier today =
     transaction (winUnit env baseAmount wonAmount userIdentifier today)"

text \<open>The same on a miss (lines 70 to 76).\<close>

definition missUnit :: "click_env \<Rightarrow> real \<Rightarrow> real \<Rightarrow> string \<Rightarrow> string \<Rightarrow> bool stmt" where
  "missUnit env current roundedNewJackpotAmount userIdentifier today =
     andThen (updateJackpot roundedNewJackpotAmount userIdentifier (update_clock env)) (\<lambda>ok.
       if \<not> ok then throw (JsError ''Failed to update jackpot on miss'')
       else andThen (logJackpotHistory current roundedNewJackpotAmount ''INCREMENT''
                       userIdentifier (history_clock env)) (\<lambda>_.
            recordClickAttempt userIdentifier today (attempt_clock env)))"

definition missTransaction :: "click_env \<Rightarrow> real \<Rightarrow> real \<Rightarrow> string \<Rightarrow> string \<Rightarrow> bool stmt" where
  "missTransaction env current roundedNewJackpotAmount userIdentifier today =
     transaction (missUnit env current roundedNewJackpotAmount userIdentifier today)"

text \<open>
  Lines 37 and 38: the distance from the click to the target, and
  \<^verbatim>\<open>Math.round(distance * 1000) / 1000\<close>.
\<close>

definition distance :: "target_pixel \<Rightarrow> real \<Rightarrow> real \<Rightarrow> real" where
  "distance targetPixel x y =
     sqrt ((of_int (pixel_x targetPixel) - x)\<^sup>2 + (of_int (pixel_y targetPixel) - y)\<^sup>2)"

definition roundedDistance :: "target_pixel \<Rightarrow> real \<Rightarrow> real \<Rightarrow> real" where
  "roundedDistance targetPixel x y = Math_round (distance targetPixel x y * 1000) / 1000"

text \<open>The \<^verbatim>\<open>try { ... } catch\<close> block of \<^verbatim>\<open>handleClick\<close> (lines 35 to 93).\<close>

definition handleClick_try ::
    "click_env \<Rightarrow> real \<Rightarrow> real \<Rightarrow> string \<Rightarrow> string \<Rightarrow> database \<Rightarrow> click_result \<times> database" where
  "handleClick_try env x y userIdentifier today db =
     (case getOrCreateDailyTargetPixel (target_clock env) (target_random_x env)
             (target_random_y env) db of
        (targetPixel, db1) \<Rightarrow>
          (let current = getJackpot db1
           in if roundedDistance targetPixel x y = 0 then
                (let baseAmount = 100; wonAmount = current
                 in (case winTransaction env baseAmount wonAmount userIdentifier today db1 of
                       (Inl error, db2) \<Rightarrow>
                         (ClickError server_error ''An unexpected server error occurred.'', db2)
                     | (Inr _, db2) \<Rightarrow>
                         (Win (roundedDistance targetPixel x y) (pixel_x targetPixel)
                            (pixel_y targetPixel) wonAmount baseAmount, db2)))
              else
                (let newJackpotAmount = current + 1 / 1000;
                     roundedNewJackpotAmount = Math_round (newJackpotAmount * 1000) / 1000
                 in (case missTransaction env current roundedNewJackpotAmount userIdentifier
                            today db1 of
                       (Inl error, db2) \<Rightarrow>
                         (ClickError server_error ''An unexpected server error occurred.'', db2)
                     | (Inr _, db2) \<Rightarrow>
                         (Miss (roundedDistance targetPixel x y) (pixel_x targetPixel)
                            (pixel_y targetPixel) roundedNewJackpotAmount, db2)))))"

text \<open>
  The guard of lines 17 to 21. The arguments are numbers by their type, so the two
  \<^verbatim>\<open>typeof\<close> tests are false; NaN and the infinities are not modelled.
\<close>

definition invalidCoordinates :: "real \<Rightarrow> real \<Rightarrow> bool" where
  "invalidCoordinates x y =
     (\<not> Number_isInteger x \<or> \<not> Number_isInteger y \<or> x < 0 \<or> x > 999 \<or> y < 0 \<or> y > 999)"

definition handleClick ::
    "click_env \<Rightarrow> real \<Rightarrow> real \<Rightarrow> string \<Rightarrow> database \<Rightarrow> click_result \<times> database" where
  "handleClick env x y userIdentifier db =
     (if invalidCoordinates x y then (ClickError validation ''Invalid coordinates.'', db)
      else let today = isoDate (click_clock env)
           in if hasAttemptedToday userIdentifier today db
              then (ClickError attempt_limit ''You have already made your attempt for today.'', db)
              else handleClick_try env x y userIdentifier today db)"

text \<open>
  \<^verbatim>\<open>handleClick\<close> is synchronous, so within one process nothing runs between its
  pre-check and its transaction. Another connection to the same SQLite file can commit in
  between: \<open>other\<close> is what such connections committed after the pre-check and before the
  \<^verbatim>\<open>try\<close> block. With \<open>other\<close> the identity this is \<open>handleClick\<close>.
\<close>

definition handleClick_concurrent ::
    "(database \<Rightarrow> database) \<Rightarrow> click_env \<Rightarrow> real \<Rightarrow> real \<Rightarrow> string \<Rightarrow> database
       \<Rightarrow> click_result \<times> database" where
  "handleClick_concurrent other env x y userIdentifier db =
     (if invalidCoordinates x y then (ClickError validation ''Invalid coordinates.'', db)
      else let today = isoDate (click_clock env)
           in if hasAttemptedToday userIdentifier today db
              then (ClickError attempt_limit ''You have already made your attempt for today.'', db)
              else handleClick_try env x y userIdentifier today (other db))"

text \<open>
  The object \<^verbatim>\<open>performAutoIncrement\<close> returns: \<open>TickSuccess newJackpotAmount\<close> or
  \<open>TickError type message\<close>.
\<close>

datatype tick_result = TickSuccess real | TickError error_type string

record tick_env =
  tick_update_clock :: string
  tick_history_clock :: string

definition autoIncrementUnit :: "tick_env \<Rightarrow> real \<Rightarrow> real \<Rightarrow> bool stmt" where
  "autoIncrementUnit env current roundedAmount =
     andThen (updateJackpot roundedAmount ''system'' (tick_update_clock env)) (\<lambda>ok.
       if \<not> ok then throw (JsError ''Auto-increment updateJackpot failed'')
       else logJackpotHistory current roundedAmount ''AUTO_INCREMENT'' ''system''
              (tick_history_clock env))"

definition autoIncrementTransaction :: "tick_env \<Rightarrow> real \<Rightarrow> real \<Rightarrow> bool stmt" where
  "autoIncrementTransaction env current roundedAmount =
     transaction (autoIncrementUnit env current roundedAmount)"

definition performAutoIncrement :: "tick_env \<Rightarrow> database \<Rightarrow> tick_result \<times> database" where
  "performAutoIncrement env db =
     (let currentJackpot = getJackpot db;
          newAmount = currentJackpot + 1 / 100;
          roundedAmount = Math_round (newAmount * 1000) / 1000
      in (case autoIncrementTransaction env currentJackpot roundedAmount db of
            (Inl error, db') \<Rightarrow> (TickError server_error ''Auto increment failed.'', db')
          | (Inr _, db') \<Rightarrow> (TickSuccess roundedAmount, db')))"

subsection \<open>Reachable ledgers\<close>

text \<open>
  The ledgers a server process can produce: \<^verbatim>\<open>initDb\<close> on a new file, then any sequence of
  restarts (\<^verbatim>\<open>initDb\<close> on the existing file), connections (which call
  \<^verbatim>\<open>getOrCreateDailyTargetPixel\<close>), clicks and timer ticks, with any clock and any draws.
\<close>

inductive reachable :: "database \<Rightarrow> bool" where
  fresh: "reachable (initDb now1 now2 rx ry emptyDb)"
| restart: "reachable db \<Longrightarrow> reachable (initDb now1 now2 rx ry db)"
| connect: "reachable db \<Longrightarrow> reachable (snd (getOrCreateDailyTargetPixel now rx ry db))"
| click: "reachable db \<Longrightarrow> reachable (snd (handleClick env x y userIdentifier db))"
| tick: "reachable db \<Longrightarrow> reachable (snd (performAutoIncrement tenv db))"

subsection \<open>A concrete ledger and concrete calls\<close>

text \<open>
  A new ledger initialised on 2024-05-01 whose draws give the target (13, 14), and the
  readings of a click and of a timer tick later that day.
\<close>

definition ledger0 :: database where
  "ledger0 = initDb ''2024-05-01T08:00:00.000Z'' ''2024-05-01T08:00:00.001Z''
               (13 / 1000) (14 / 1000) emptyDb"

definition env0 :: click_env where
  "env0 = \<lparr>click_clock = ''2024-05-01T09:30:00.000Z'',
           target_clock = ''2024-05-01T09:30:00.001Z'',
           target_random_x = 1 / 2, target_random_y = 1 / 4,
           update_clock = ''2024-05-01T09:30:00.002Z'',
           history_clock = ''2024-05-01T09:30:00.003Z'',
           force_clock = ''2024-05-01T09:30:00.004Z'',
           force_random_x = 3 / 4, force_random_y = 1 / 8,
           attempt_clock = ''2024-05-01T09:30:00.005Z''\<rparr>"

definition tick0 :: tick_env where
  "tick0 = \<lparr>tick_update_clock = ''2024-05-01T09:35:00.000Z'',
            tick_history_clock = ''2024-05-01T09:35:00.001Z''\<rparr>"

text \<open>A second click later the same day, and a click on the next day.\<close>

definition env1 :: click_env where
  "env1 = \<lparr>click_clock = ''2024-05-01T17:45:10.000Z'',
           target_clock = ''2024-05-01T17:45:10.001Z'',
           target_random_x = 1 / 8, target_random_y = 3 / 8,
           update_clock = ''2024-05-01T17:45:10.002Z'',
           history_clock = ''2024-05-01T17:45:10.003Z'',
           force_clock = ''2024-05-01T17:45:10.004Z'',
           force_random_x = 5 / 8, force_random_y = 7 / 8,
           attempt_clock = ''2024-05-01T17:45:10.005Z''\<rparr>"

definition env2 :: click_env where
  "env2 = \<lparr>click_clock = ''2024-05-02T07:00:00.000Z'',
           target_clock = ''2024-05-02T07:00:00.001Z'',
           target_random_x = 1 / 2, target_random_y = 1 / 4,
           update_clock = ''2024-05-02T07:00:00.002Z'',
           history_clock = ''2024-05-02T07:00:00.003Z'',
           force_clock = ''2024-05-02T07:00:00.004Z'',
           force_random_x = 3 / 4, force_random_y = 1 / 8,
           attempt_clock = ''2024-05-02T07:00:00.005Z''\<rparr>"

text \<open>
  A click whose call straddles midnight (UTC): the target is read on 2024-05-01 and
  \<^verbatim>\<open>forceNewDailyTarget\<close> reads 2024-05-02.
\<close>

definition envMidnight :: click_env where
  "envMidnight = \<lparr>click_clock = ''2024-05-01T23:59:59.998Z'',
           target_clock = ''2024-05-01T23:59:59.999Z'',
           target_random_x = 1 / 2, target_random_y = 1 / 4,
           update_clock = ''2024-05-01T23:59:59.999Z'',
           history_clock = ''2024-05-02T00:00:00.000Z'',
           force_clock = ''2024-05-02T00:00:00.001Z'',
           force_random_x = 3 / 4, force_random_y = 1 / 8,
           attempt_clock = ''2024-05-02T00:00:00.002Z''\<rparr>"

text \<open>
  A database file whose jackpot row was not written by this program: the amount 100.0004
  is not a multiple of 0.001. \<^verbatim>\<open>initDb\<close> keeps an existing row as it is.
\<close>

definition ledgerOffGrid :: database where
  "ledgerOffGrid =
     ledger0\<lparr>jackpot_state := Some \<lparr>current_amount = 1000004 / 10000,
        last_update = ''2024-04-30T12:00:00.000Z'', last_modified_by = ''import'',
        version = 3\<rparr>\<rparr>"

text \<open>The ledger of 2024-05-01 with the jackpot at the ceiling.\<close>

definition ledgerCeiling :: database where
  "ledgerCeiling =
     ledger0\<lparr>jackpot_state := Some \<lparr>current_amount = 10000000,
        last_update = ''2024-05-01T08:30:00.000Z'', last_modified_by = ''system'',
        version = 7\<rparr>\<rparr>"

text \<open>What another connection commits: the attempt row of the same caller for the same day.\<close>

definition otherConnection :: "string \<Rightarrow> string \<Rightarrow> string \<Rightarrow> database \<Rightarrow> database" where
  "otherConnection ident date now db =
     db\<lparr>click_attempts := click_attempts db @
          [\<lparr>attempt_identifier = ident, attempt_date = date, attempt_timestamp = now\<rparr>]\<rparr>"

section \<open>Properties\<close>

subsection \<open>Rounding, tables and transactions\<close>

lemma Math_round_of_int: "Math_round (of_int k) = of_int k"
  by (simp add: Math_round_def)

lemma find_list_ex: "(find P xs \<noteq> None) = list_ex P xs"
  by (induction xs) auto

lemma hasAttemptedToday_list_ex:
  "hasAttemptedToday u d db = list_ex (\<lambda>r. attempt_identifier r = u \<and> attempt_date r = d) (click_attempts db)"
  unfolding hasAttemptedToday_def by (rule find_list_ex)

lemma transaction_abort: "transaction body db = (Inl e, db') \<Longrightarrow> db' = db"
  by (auto simp: transaction_def split: prod.splits sum.splits)

lemma updateJackpot_result:
  "updateJackpot a u n db =
     (if a < 0 \<or> a > 10000000 then (Inl (JsError ''Invalid jackpot amount''), db)
      else case jackpot_state db of
             None \<Rightarrow> (Inr False, db)
           | Some row \<Rightarrow> (Inr True, db\<lparr>jackpot_state := Some (row\<lparr>current_amount := Math_round (a * 1000) / 1000,
                         last_update := n, last_modified_by := u, version := version row + 1\<rparr>)\<rparr>))"
  by (simp add: updateJackpot_def throw_def Let_def)

lemma missTransaction_result:
  "missTransaction env cur a u d db =
     (if a < 0 \<or> a > 10000000 then (Inl (JsError ''Invalid jackpot amount''), db)
      else case jackpot_state db of
             None \<Rightarrow> (Inl (JsError ''Failed to update jackpot on miss''), db)
           | Some row \<Rightarrow>
               if hasAttemptedToday u d db then (Inl SqliteConstraintUnique, db)
               else (Inr True,
                 db\<lparr>jackpot_state := Some (row\<lparr>current_amount := Math_round (a * 1000) / 1000,
                       last_update := update_clock env, last_modified_by := u,
                       version := version row + 1\<rparr>),
                    jackpot_history := jackpot_history db @
                      [\<lparr>timestamp = history_clock env, previous_amount = cur, new_amount = a,
                        action_type = ''INCREMENT'', user_id = u\<rparr>],
                    click_attempts := click_attempts db @
                      [\<lparr>attempt_identifier = u, attempt_date = d,
                        attempt_timestamp = attempt_clock env\<rparr>]\<rparr>))"
  by (simp add: missTransaction_def missUnit_def transaction_def andThen_def updateJackpot_result
      logJackpotHistory_def recordClickAttempt_def throw_def hasAttemptedToday_list_ex
      split: option.splits)

lemma find_map_update:
  assumes "\<And>r. P (f r) = P r"
  shows "find P (map (\<lambda>r. if P r then f r else r) xs) = map_option f (find P xs)"
  using assms by (induction xs) auto

lemma find_append_new: "find P xs = None \<Longrightarrow> P r \<Longrightarrow> find P (xs @ [r]) = Some r"
  by (induction xs) (auto split: if_splits)

lemma forceNewDailyTarget_result:
  "forceNewDailyTarget n rx ry db =
     (Inr \<lparr>pixel_x = Math_floor (rx * 1000), pixel_y = Math_floor (ry * 1000), pixel_date = isoDate n\<rparr>,
      db\<lparr>daily_target :=
           (if list_ex (\<lambda>r. target_date r = isoDate n) (daily_target db)
            then map (\<lambda>r. if target_date r = isoDate n
                            then r\<lparr>target_x := Math_floor (rx * 1000), target_y := Math_floor (ry * 1000),
                                   target_version := target_version r + 1\<rparr>
                            else r) (daily_target db)
            else daily_target db @
                  [\<lparr>target_x = Math_floor (rx * 1000), target_y = Math_floor (ry * 1000), target_date = isoDate n,
                    target_version = 1\<rparr>])\<rparr>)"
  by (simp add: forceNewDailyTarget_def Let_def)

lemma autoIncrementTransaction_result:
  "autoIncrementTransaction env cur a db =
     (if a < 0 \<or> a > 10000000 then (Inl (JsError ''Invalid jackpot amount''), db)
      else case jackpot_state db of
             None \<Rightarrow> (Inl (JsError ''Auto-increment updateJackpot failed''), db)
           | Some row \<Rightarrow>
               (Inr True,
                 db\<lparr>jackpot_state := Some (row\<lparr>current_amount := Math_round (a * 1000) / 1000,
                       last_update := tick_update_clock env, last_modified_by := ''system'',
                       version := version row + 1\<rparr>),
                    jackpot_history := jackpot_history db @
                      [\<lparr>timestamp = tick_history_clock env, previous_amount = cur, new_amount = a,
                        action_type = ''AUTO_INCREMENT'', user_id = ''system''\<rparr>]\<rparr>))"
  by (simp add: autoIncrementTransaction_def autoIncrementUnit_def transaction_def andThen_def updateJackpot_result
      logJackpotHistory_def throw_def split: option.splits)

lemma getOrCreateDailyTargetPixel_other:
  "jackpot_state (snd (getOrCreateDailyTargetPixel n rx ry db)) = jackpot_state db"
  "jackpot_history (snd (getOrCreateDailyTargetPixel n rx ry db)) = jackpot_history db"
  "click_attempts (snd (getOrCreateDailyTargetPixel n rx ry db)) = click_attempts db"
  by (simp_all add: getOrCreateDailyTargetPixel_def Let_def split: option.splits)

lemma getOrCreateDailyTargetPixel_row:
  "\<exists>r. find (\<lambda>r. target_date r = isoDate n) (daily_target (snd (getOrCreateDailyTargetPixel n rx ry db))) = Some r
      \<and> target_x r = pixel_x (fst (getOrCreateDailyTargetPixel n rx ry db))
      \<and> target_y r = pixel_y (fst (getOrCreateDailyTargetPixel n rx ry db))"
proof (cases "find (\<lambda>r. target_date r = isoDate n) (daily_target db)")
  case None
  then show ?thesis
    by (simp add: getOrCreateDailyTargetPixel_def Let_def find_append_new)
next
  case (Some r)
  then show ?thesis
    by (simp add: getOrCreateDailyTargetPixel_def Let_def)
qed

lemma winTransaction_result:
  "winTransaction env b cur u d db =
     (if b < 0 \<or> b > 10000000 then (Inl (JsError ''Invalid jackpot amount''), db)
      else case jackpot_state db of
             None \<Rightarrow> (Inl (JsError ''Failed to reset jackpot''), db)
           | Some row \<Rightarrow>
               if hasAttemptedToday u d db then (Inl SqliteConstraintUnique, db)
               else (Inr True,
                 db\<lparr>jackpot_state := Some (row\<lparr>current_amount := Math_round (b * 1000) / 1000,
                       last_update := update_clock env, last_modified_by := u,
                       version := version row + 1\<rparr>),
                    jackpot_history := jackpot_history db @
                      [\<lparr>timestamp = history_clock env, previous_amount = cur, new_amount = b,
                        action_type = ''JACKPOT_WIN'', user_id = u\<rparr>],
                    daily_target := daily_target
                      (snd (forceNewDailyTarget (force_clock env) (force_random_x env)
                              (force_random_y env) db)),
                    click_attempts := click_attempts db @
                      [\<lparr>attempt_identifier = u, attempt_date = d,
                        attempt_timestamp = attempt_clock env\<rparr>]\<rparr>))"
  by (simp add: winTransaction_def winUnit_def transaction_def andThen_def resetJackpot_def updateJackpot_result
      logJackpotHistory_def recordClickAttempt_def throw_def hasAttemptedToday_list_ex
      forceNewDailyTarget_result
      split: option.splits)

lemma Math_round_Math_round: "Math_round (Math_round v) = Math_round v"
proof -
  have "Math_round (of_int \<lfloor>v + 1 / 2\<rfloor>) = of_int \<lfloor>v + 1 / 2\<rfloor>"
    by (rule Math_round_of_int)
  then show ?thesis by (simp only: Math_round_def)
qed

lemma handleClick_try_result:
  "handleClick_try env x y u d db =
     (let targetPixel = fst (getOrCreateDailyTargetPixel (target_clock env) (target_random_x env)
                               (target_random_y env) db);
          db1 = snd (getOrCreateDailyTargetPixel (target_clock env) (target_random_x env)
                       (target_random_y env) db);
          rd = roundedDistance targetPixel x y;
          new = Math_round ((getJackpot db + 1 / 1000) * 1000) / 1000
      in case jackpot_state db of
           None \<Rightarrow> (ClickError server_error ''An unexpected server error occurred.'', db1)
         | Some row \<Rightarrow>
             if hasAttemptedToday u d db \<or> (rd \<noteq> 0 \<and> (new < 0 \<or> new > 10000000))
             then (ClickError server_error ''An unexpected server error occurred.'', db1)
             else if rd = 0 then
               (Win rd (pixel_x targetPixel) (pixel_y targetPixel) (current_amount row) 100,
                db1\<lparr>jackpot_state := Some (row\<lparr>current_amount := 100,
                       last_update := update_clock env, last_modified_by := u,
                       version := version row + 1\<rparr>),
                    jackpot_history := jackpot_history db @
                      [\<lparr>timestamp = history_clock env, previous_amount = current_amount row,
                        new_amount = 100, action_type = ''JACKPOT_WIN'', user_id = u\<rparr>],
                    daily_target := daily_target
                      (snd (forceNewDailyTarget (force_clock env) (force_random_x env)
                              (force_random_y env) db1)),
                    click_attempts := click_attempts db @
                      [\<lparr>attempt_identifier = u, attempt_date = d,
                        attempt_timestamp = attempt_clock env\<rparr>]\<rparr>)
             else
               (Miss rd (pixel_x targetPixel) (pixel_y targetPixel) new,
                db1\<lparr>jackpot_state := Some (row\<lparr>current_amount := new,
                       last_update := update_clock env, last_modified_by := u,
                       version := version row + 1\<rparr>),
                    jackpot_history := jackpot_history db @
                      [\<lparr>timestamp = history_clock env, previous_amount = current_amount row,
                        new_amount = new, action_type = ''INCREMENT'', user_id = u\<rparr>],
                    click_attempts := click_attempts db @
                      [\<lparr>attempt_identifier = u, attempt_date = d,
                        attempt_timestamp = attempt_clock env\<rparr>]\<rparr>))"
proof -
  obtain tp db1 where g: "getOrCreateDailyTargetPixel (target_clock env) (target_random_x env)
                               (target_random_y env) db = (tp, db1)"
    by (cases "getOrCreateDailyTargetPixel (target_clock env) (target_random_x env)
                               (target_random_y env) db")
  have same: "jackpot_state db1 = jackpot_state db" "jackpot_history db1 = jackpot_history db"
    "click_attempts db1 = click_attempts db"
    using getOrCreateDailyTargetPixel_other[of "target_clock env" "target_random_x env" "target_random_y env" db]
    by (simp_all add: g)
  have att: "hasAttemptedToday u d db1 = hasAttemptedToday u d db"
    by (simp add: hasAttemptedToday_def same)
  have gj: "getJackpot db1 = getJackpot db" by (simp add: getJackpot_def same)
  have r100: "Math_round 100000 / 1000 = 100" by (simp add: Math_round_def)
  show ?thesis
  proof (cases "jackpot_state db")
    case None
    then show ?thesis
      by (simp add: handleClick_try_def g Let_def winTransaction_result missTransaction_result
          same att gj)
  next
    case (Some row)
    then have cur: "getJackpot db = current_amount row" by (simp add: getJackpot_def)
    show ?thesis
    proof (cases "roundedDistance tp x y = 0")
      case True
      with Some show ?thesis
        by (simp add: handleClick_try_def g Let_def winTransaction_result same att gj cur r100)
    next
      case False
      with Some show ?thesis
        by (simp add: handleClick_try_def g Let_def missTransaction_result same att gj cur
            Math_round_Math_round)
    qed
  qed
qed

lemma Math_round_nonneg: "0 \<le> v \<Longrightarrow> 0 \<le> Math_round v"
proof -
  assume "0 \<le> v"
  then have "0 \<le> \<lfloor>v + 1 / 2\<rfloor>" by simp
  then have "(0::real) \<le> of_int \<lfloor>v + 1 / 2\<rfloor>" by linarith
  then show ?thesis by (simp only: Math_round_def)
qed

lemma handleClick_passes_gate:
  assumes "\<not> invalidCoordinates x y"
    and "\<not> hasAttemptedToday u (isoDate (click_clock env)) db"
  shows "handleClick env x y u db = handleClick_try env x y u (isoDate (click_clock env)) db"
  using assms by (simp add: handleClick_def Let_def)

lemma list_ex_find: "list_ex P xs = (find P xs \<noteq> None)"
  by (induction xs) auto

lemma forceNewDailyTarget_existing:
  assumes "find (\<lambda>r. target_date r = isoDate n) (daily_target db) = Some r"
  shows "find (\<lambda>r. target_date r = isoDate n)
           (daily_target (snd (forceNewDailyTarget n rx ry db))) =
         Some (r\<lparr>target_x := Math_floor (rx * 1000), target_y := Math_floor (ry * 1000),
                 target_version := target_version r + 1\<rparr>)"
proof -
  have ex: "list_ex (\<lambda>r. target_date r = isoDate n) (daily_target db)"
    using assms by (simp add: list_ex_find)
  have "find (\<lambda>r. target_date r = isoDate n)
          (map (\<lambda>r. if target_date r = isoDate n
                     then r\<lparr>target_x := Math_floor (rx * 1000), target_y := Math_floor (ry * 1000),
                            target_version := target_version r + 1\<rparr>
                     else r) (daily_target db)) =
        map_option (\<lambda>r. r\<lparr>target_x := Math_floor (rx * 1000), target_y := Math_floor (ry * 1000),
                            target_version := target_version r + 1\<rparr>)
          (find (\<lambda>r. target_date r = isoDate n) (daily_target db))"
    by (rule find_map_update) simp
  with ex assms show ?thesis by (simp add: forceNewDailyTarget_result)
qed

lemma roundedDistance_nonneg: "0 \<le> roundedDistance targetPixel x y"
proof -
  have "0 \<le> distance targetPixel x y * 1000" by (simp add: distance_def)
  then have "0 \<le> Math_round (distance targetPixel x y * 1000)" by (rule Math_round_nonneg)
  then show ?thesis by (simp add: roundedDistance_def)
qed

lemma find_append_last: "P r \<Longrightarrow> find P (xs @ [r]) \<noteq> None"
  by (induction xs) auto

lemma handleClick_try_success_attempt:
  assumes "handleClick_try env x y u d db = (outcome, db')"
    and "\<forall>t m. outcome \<noteq> ClickError t m"
  shows "hasAttemptedToday u d db'"
proof (cases "jackpot_state db")
  case None
  with assms show ?thesis by (auto simp add: handleClick_try_result Let_def)
next
  case (Some row)
  have "click_attempts db' = click_attempts db @
          [\<lparr>attempt_identifier = u, attempt_date = d, attempt_timestamp = attempt_clock env\<rparr>]"
    using assms Some by (auto simp add: handleClick_try_result Let_def split: if_splits)
  then show ?thesis by (simp add: hasAttemptedToday_def find_append_last)
qed

lemma getOrCreateDailyTargetPixel_targets:
  "daily_target (snd (getOrCreateDailyTargetPixel n rx ry db)) =
     (case find (\<lambda>r. target_date r = isoDate n) (daily_target db) of
        Some r \<Rightarrow> daily_target db
      | None \<Rightarrow> daily_target db @
          [\<lparr>target_x = Math_floor (rx * 1000), target_y = Math_floor (ry * 1000),
            target_date = isoDate n, target_version = 1\<rparr>])"
  by (simp add: getOrCreateDailyTargetPixel_def Let_def split: option.splits)

lemma handleClick_try_error:
  assumes "handleClick_try env x y u d db = (ClickError t m, db')"
  shows "db' = snd (getOrCreateDailyTargetPixel (target_clock env) (target_random_x env)
                      (target_random_y env) db)"
  using assms
  by (cases "jackpot_state db") (auto simp add: handleClick_try_result Let_def split: if_splits)

lemma handleClick_concurrent_id:
  "handleClick_concurrent (\<lambda>d. d) env x y u db = handleClick env x y u db"
  by (simp add: handleClick_concurrent_def handleClick_def)

lemma handleClick_try_attempted:
  assumes "hasAttemptedToday u d db"
  shows "handleClick_try env x y u d db =
           (ClickError server_error ''An unexpected server error occurred.'',
            snd (getOrCreateDailyTargetPixel (target_clock env) (target_random_x env)
                   (target_random_y env) db))"
  using assms by (simp add: handleClick_try_result Let_def split: option.splits)

lemma initDb_jackpot_state:
  "jackpot_state (initDb now1 now2 rx ry db) =
     (case jackpot_state db of
        None \<Rightarrow> Some \<lparr>current_amount = 100, last_update = now1,
                        last_modified_by = ''system'', version = 1\<rparr>
      | Some row \<Rightarrow> Some row)"
  by (simp add: initDb_def Let_def split: option.splits)

lemma handleClick_jackpot_state:
  assumes "jackpot_state db = Some row"
  shows "case handleClick env x y u db of
           (ClickError t m, db') \<Rightarrow> jackpot_state db' = Some row
         | (Win d tx ty won base, db') \<Rightarrow>
             jackpot_state db' = Some (row\<lparr>current_amount := 100,
               last_update := update_clock env, last_modified_by := u,
               version := version row + 1\<rparr>)
         | (Miss d tx ty a, db') \<Rightarrow>
             0 \<le> a \<and> a \<le> 10000000 \<and>
             jackpot_state db' = Some (row\<lparr>current_amount := a,
               last_update := update_clock env, last_modified_by := u,
               version := version row + 1\<rparr>)"
proof (cases "invalidCoordinates x y \<or> hasAttemptedToday u (isoDate (click_clock env)) db")
  case True
  with assms show ?thesis by (auto simp add: handleClick_def Let_def)
next
  case False
  then have body: "handleClick env x y u db =
      handleClick_try env x y u (isoDate (click_clock env)) db"
    by (simp add: handleClick_def Let_def)
  show ?thesis
    unfolding body handleClick_try_result using assms False
    by (simp add: Let_def getOrCreateDailyTargetPixel_other not_less)
qed

lemma performAutoIncrement_jackpot_state:
  assumes "jackpot_state db = Some row"
  shows "case performAutoIncrement tenv db of
           (TickSuccess a, db') \<Rightarrow>
             0 \<le> a \<and> a \<le> 10000000 \<and>
             jackpot_state db' = Some (row\<lparr>current_amount := a,
               last_update := tick_update_clock tenv, last_modified_by := ''system'',
               version := version row + 1\<rparr>)
         | (TickError t m, db') \<Rightarrow> jackpot_state db' = Some row"
  using assms
  by (simp add: performAutoIncrement_def Let_def autoIncrementTransaction_result
      Math_round_Math_round not_less)

lemma reachable_jackpot_bounds:
  assumes "reachable db"
  shows "\<exists>row. jackpot_state db = Some row \<and> 0 \<le> current_amount row \<and>
               current_amount row \<le> 10000000"
  using assms
proof (induction rule: reachable.induct)
  case (fresh now1 now2 rx ry)
  show ?case by (simp add: initDb_jackpot_state emptyDb_def)
next
  case (restart db now1 now2 rx ry)
  then show ?case by (auto simp add: initDb_jackpot_state)
next
  case (connect db now rx ry)
  then show ?case by (simp add: getOrCreateDailyTargetPixel_other)
next
  case (click db env x y userIdentifier)
  then obtain row where row: "jackpot_state db = Some row" "0 \<le> current_amount row"
    "current_amount row \<le> 10000000" by auto
  show ?case
    using handleClick_jackpot_state [where env = env and x = x and y = y
        and u = userIdentifier, OF row(1)] row(2,3)
    by (cases "handleClick env x y userIdentifier db";
        cases "fst (handleClick env x y userIdentifier db)") auto
next
  case (tick db tenv)
  then obtain row where row: "jackpot_state db = Some row" "0 \<le> current_amount row"
    "current_amount row \<le> 10000000" by auto
  show ?case
    using performAutoIncrement_jackpot_state [where tenv = tenv, OF row(1)] row(2,3)
    by (cases "performAutoIncrement tenv db";
        cases "fst (performAutoIncrement tenv db)") auto
qed

lemma round3_spec:
  "\<exists>k::int. Math_round (v * 1000) / 1000 = of_int k / 1000 \<and>
            v - 1 / 2000 < of_int k / 1000 \<and> of_int k / 1000 \<le> v + 1 / 2000"
proof -
  have lo: "of_int \<lfloor>v * 1000 + 1 / 2\<rfloor> \<le> v * 1000 + 1 / 2" by (rule of_int_floor_le)
  have hi: "v * 1000 + 1 / 2 < of_int \<lfloor>v * 1000 + 1 / 2\<rfloor> + 1" by linarith
  have a: "v - 1 / 2000 < of_int \<lfloor>v * 1000 + 1 / 2\<rfloor> / 1000" using hi by (simp add: field_simps)
  have b: "of_int \<lfloor>v * 1000 + 1 / 2\<rfloor> / 1000 \<le> v + 1 / 2000" using lo by (simp add: field_simps)
  show ?thesis unfolding Math_round_def using a b by blast
qed

lemma round3_add_on_grid:
  "Math_round ((of_int j / 1000 + 1 / 1000) * 1000) / 1000 = of_int j / 1000 + 1 / 1000"
proof -
  have "(real_of_int j / 1000 + 1 / 1000) * 1000 = of_int (j + 1)" by simp
  then have "Math_round ((of_int j / 1000 + 1 / 1000) * 1000) = of_int (j + 1)"
    by (simp only: Math_round_of_int)
  then show ?thesis by simp
qed

lemma round3_add_cent_on_grid:
  "Math_round ((of_int j / 1000 + 1 / 100) * 1000) / 1000 = of_int j / 1000 + 1 / 100"
proof -
  have "(real_of_int j / 1000 + 1 / 100) * 1000 = of_int (j + 10)" by simp
  then have "Math_round ((of_int j / 1000 + 1 / 100) * 1000) = of_int (j + 10)"
    by (simp only: Math_round_of_int)
  then show ?thesis by simp
qed

lemma round3_le_ceiling:
  "(Math_round (v * 1000) / 1000 \<le> 10000000) = (v < 10000000 + 1 / 2000)"
proof -
  have "(Math_round (v * 1000) / 1000 \<le> 10000000) = (\<lfloor>v * 1000 + 1 / 2\<rfloor> \<le> 10000000000)"
    unfolding Math_round_def by (simp add: field_simps)
  also have "\<dots> = (\<lfloor>v * 1000 + 1 / 2\<rfloor> < 10000000000 + 1)" by linarith
  also have "\<dots> = (v * 1000 + 1 / 2 < 10000000000 + 1)" by (simp add: floor_less_iff)
  also have "\<dots> = (v < 10000000 + 1 / 2000)" by (simp add: field_simps)
  finally show ?thesis .
qed

lemma sum_squares_int_zero:
  fixes a b :: int
  shows "(a\<^sup>2 + b\<^sup>2 = 0) = (a = 0 \<and> b = 0)"
  by (simp add: sum_power2_eq_zero_iff)

lemma rounded_sqrt_int:
  fixes n :: int
  assumes "0 \<le> n"
  shows "(\<lfloor>sqrt (of_int n) * 1000 + 1 / 2\<rfloor> = 0) = (n = 0)"
proof (cases "n = 0")
  case True
  then show ?thesis by simp
next
  case False
  with assms have "1 \<le> n" by simp
  then have "(1::real) \<le> of_int n" by linarith
  then have "1 \<le> sqrt (of_int n)" by simp
  then have "1000 \<le> sqrt (of_int n) * 1000 + 1 / 2" by linarith
  then have "1000 \<le> \<lfloor>sqrt (of_int n) * 1000 + 1 / 2\<rfloor>" by (simp add: le_floor_iff)
  then have "\<lfloor>sqrt (of_int n) * 1000 + 1 / 2\<rfloor> \<noteq> 0" by linarith
  with False show ?thesis by (simp only:)
qed

lemma rounded_distance_zero_iff:
  assumes "Number_isInteger x" "Number_isInteger y"
  shows "(\<lfloor>sqrt ((of_int tx - x)\<^sup>2 + (of_int ty - y)\<^sup>2) * 1000 + 1 / 2\<rfloor> = 0) =
           (x = of_int tx \<and> y = of_int ty)"
proof -
  from assms obtain a b :: int where x: "x = of_int a" and y: "y = of_int b"
    unfolding Number_isInteger_def by metis
  have sq: "(real_of_int tx - x)\<^sup>2 + (real_of_int ty - y)\<^sup>2 =
        of_int ((tx - a)\<^sup>2 + (ty - b)\<^sup>2)"
    by (simp add: x y)
  have "(\<lfloor>sqrt (of_int ((tx - a)\<^sup>2 + (ty - b)\<^sup>2)) * 1000 + 1 / 2\<rfloor> = 0) =
        ((tx - a)\<^sup>2 + (ty - b)\<^sup>2 = 0)"
    by (rule rounded_sqrt_int) simp
  also have "\<dots> = (tx - a = 0 \<and> ty - b = 0)" by (rule sum_squares_int_zero)
  also have "\<dots> = (x = of_int tx \<and> y = of_int ty)" by (auto simp add: x y)
  finally show ?thesis by (simp only: sq)
qed

lemma roundedDistance_floor:
  "(roundedDistance tp x y = 0) =
     (\<lfloor>sqrt ((of_int (pixel_x tp) - x)\<^sup>2 + (of_int (pixel_y tp) - y)\<^sup>2) * 1000 + 1 / 2\<rfloor> = 0)"
  by (simp add: roundedDistance_def distance_def Math_round_def)

lemma roundedDistance_zero_iff:
  assumes "\<not> invalidCoordinates x y"
  shows "(roundedDistance tp x y = 0) = (x = of_int (pixel_x tp) \<and> y = of_int (pixel_y tp))"
proof -
  from assms have "Number_isInteger x" "Number_isInteger y"
    by (simp_all add: invalidCoordinates_def)
  then show ?thesis unfolding roundedDistance_floor by (rule rounded_distance_zero_iff)
qed

lemma find_map_unchanged:
  assumes "\<And>r. P (g r) = P r" "\<And>r. P r \<Longrightarrow> g r = r"
  shows "find P (map g xs) = find P xs"
  using assms by (induction xs) auto

lemma find_append_not: "\<not> P r \<Longrightarrow> find P (xs @ [r]) = find P xs"
  by (induction xs) auto

lemma forceNewDailyTarget_other_date:
  assumes "isoDate n \<noteq> d"
  shows "find (\<lambda>r. target_date r = d) (daily_target (snd (forceNewDailyTarget n rx ry db))) =
         find (\<lambda>r. target_date r = d) (daily_target db)"
proof (cases "list_ex (\<lambda>r. target_date r = isoDate n) (daily_target db)")
  case True
  have "find (\<lambda>r. target_date r = d)
          (map (\<lambda>r. if target_date r = isoDate n
                     then r\<lparr>target_x := Math_floor (rx * 1000), target_y := Math_floor (ry * 1000),
                            target_version := target_version r + 1\<rparr>
                     else r) (daily_target db)) =
        find (\<lambda>r. target_date r = d) (daily_target db)"
    using assms by (intro find_map_unchanged) auto
  with True show ?thesis by (simp add: forceNewDailyTarget_result)
next
  case False
  with assms show ?thesis by (simp add: forceNewDailyTarget_result find_append_not)
qed

lemma handleClick_gate_closed:
  assumes "\<not> invalidCoordinates x y"
    and "hasAttemptedToday u (isoDate (click_clock env)) db"
  shows "handleClick env x y u db =
           (ClickError attempt_limit ''You have already made your attempt for today.'', db)"
  using assms by (simp add: handleClick_def Let_def)

lemma handleClick_concurrent_error:
  assumes "handleClick_concurrent other env x y u db = (ClickError t m, db')"
  shows "(t \<noteq> server_error \<and> db' = db) \<or>
         (t = server_error \<and>
          db' = snd (getOrCreateDailyTargetPixel (target_clock env) (target_random_x env)
                       (target_random_y env) (other db)))"
proof (cases "invalidCoordinates x y \<or> hasAttemptedToday u (isoDate (click_clock env)) db")
  case True
  with assms show ?thesis
    by (auto simp add: handleClick_concurrent_def Let_def split: if_splits)
next
  case False
  then have body: "handleClick_try env x y u (isoDate (click_clock env)) (other db) =
      (ClickError t m, db')"
    using assms by (simp add: handleClick_concurrent_def Let_def)
  have t: "t = server_error"
    using body
    by (cases "jackpot_state (other db)")
      (auto simp add: handleClick_try_result Let_def split: if_splits)
  with handleClick_try_error [OF body] show ?thesis by simp
qed

lemma Math_round_int: "\<exists>k::int. Math_round v = of_int k"
  unfolding Math_round_def by blast

lemma handleClick_jackpot_grid:
  assumes "jackpot_state db = Some row" "\<exists>j::int. current_amount row = of_int j / 1000"
  shows "\<exists>row' k. jackpot_state (snd (handleClick env x y u db)) = Some row' \<and>
           current_amount row' = real_of_int k / 1000"
proof (cases "invalidCoordinates x y \<or> hasAttemptedToday u (isoDate (click_clock env)) db")
  case True
  with assms show ?thesis by (auto simp add: handleClick_def Let_def)
next
  case False
  then have body: "handleClick env x y u db =
      handleClick_try env x y u (isoDate (click_clock env)) db"
    by (simp add: handleClick_def Let_def)
  have hundred: "\<exists>k::int. (100::real) = of_int k / 1000"
    by (rule exI [of _ 100000]) simp
  show ?thesis
    unfolding body handleClick_try_result using assms False hundred
    by (simp add: Let_def getOrCreateDailyTargetPixel_other Math_round_int)
qed

lemma performAutoIncrement_jackpot_grid:
  assumes "jackpot_state db = Some row" "\<exists>j::int. current_amount row = of_int j / 1000"
  shows "\<exists>row' k. jackpot_state (snd (performAutoIncrement tenv db)) = Some row' \<and>
           current_amount row' = real_of_int k / 1000"
  using assms
  by (simp add: performAutoIncrement_def Let_def autoIncrementTransaction_result
      Math_round_Math_round Math_round_int)

lemma reachable_jackpot_grid:
  assumes "reachable db"
  shows "\<exists>row k. jackpot_state db = Some row \<and> current_amount row = real_of_int k / 1000"
  using assms
proof (induction rule: reachable.induct)
  case (fresh now1 now2 rx ry)
  have "\<exists>k::int. (100::real) = of_int k / 1000" by (rule exI [of _ 100000]) simp
  then show ?case by (simp add: initDb_jackpot_state emptyDb_def)
next
  case (restart db now1 now2 rx ry)
  then show ?case by (auto simp add: initDb_jackpot_state)
next
  case (connect db now rx ry)
  then show ?case by (simp add: getOrCreateDailyTargetPixel_other)
next
  case (click db env x y userIdentifier)
  then obtain row where "jackpot_state db = Some row"
    "\<exists>j::int. current_amount row = of_int j / 1000" by auto
  then show ?case by (rule handleClick_jackpot_grid)
next
  case (tick db tenv)
  then obtain row where "jackpot_state db = Some row"
    "\<exists>j::int. current_amount row = of_int j / 1000" by auto
  then show ?case by (rule performAutoIncrement_jackpot_grid)
qed

subsection \<open>The concrete ledgers and calls, evaluated\<close>

lemma isoDate_examples:
  "isoDate ''2024-05-01T08:00:00.001Z'' = ''2024-05-01''"
  "isoDate ''2024-05-01T09:30:00.000Z'' = ''2024-05-01''"
  "isoDate ''2024-05-01T09:30:00.001Z'' = ''2024-05-01''"
  "isoDate ''2024-05-01T09:30:00.004Z'' = ''2024-05-01''"
  "isoDate ''2024-05-01T17:45:10.000Z'' = ''2024-05-01''"
  "isoDate ''2024-05-01T17:45:10.001Z'' = ''2024-05-01''"
  "isoDate ''2024-05-01T17:45:10.004Z'' = ''2024-05-01''"
  "isoDate ''2024-05-02T07:00:00.000Z'' = ''2024-05-02''"
  "isoDate ''2024-05-02T07:00:00.001Z'' = ''2024-05-02''"
  "isoDate ''2024-05-02T07:00:00.004Z'' = ''2024-05-02''"
  by (simp_all add: isoDate_def)

lemma ledger0_value:
  "ledger0 = \<lparr>jackpot_state = Some \<lparr>current_amount = 100,
                  last_update = ''2024-05-01T08:00:00.000Z'', last_modified_by = ''system'',
                  version = 1\<rparr>,
               jackpot_history = [],
               daily_target = [\<lparr>target_x = 13, target_y = 14, target_date = ''2024-05-01'',
                                target_version = 1\<rparr>],
               click_attempts = []\<rparr>"
  by (simp add: ledger0_def initDb_def emptyDb_def Let_def isoDate_examples Math_floor_def)

lemma sqrt_25: "sqrt 25 = 5"
  by (rule real_sqrt_unique) simp_all

lemma target0:
  "getOrCreateDailyTargetPixel (target_clock env0) (target_random_x env0) (target_random_y env0)
     ledger0 = (\<lparr>pixel_x = 13, pixel_y = 14, pixel_date = ''2024-05-01''\<rparr>, ledger0)"
  by (simp add: getOrCreateDailyTargetPixel_def env0_def isoDate_examples ledger0_value Let_def)

lemma roundedDistance_3_4:
  "roundedDistance \<lparr>pixel_x = 13, pixel_y = 14, pixel_date = d\<rparr> 10 10 = 5"
  by (simp add: roundedDistance_def distance_def sqrt_25 Math_round_def)

lemma valid_10_10: "\<not> invalidCoordinates 10 10"
  by (simp add: invalidCoordinates_def Number_isInteger_def)

lemma gate0: "\<not> hasAttemptedToday u d ledger0"
  by (simp add: hasAttemptedToday_def ledger0_value)

lemma row0:
  "jackpot_state ledger0 = Some \<lparr>current_amount = 100,
     last_update = ''2024-05-01T08:00:00.000Z'', last_modified_by = ''system'', version = 1\<rparr>"
  by (simp add: ledger0_value)

lemma ledgerCeiling_value:
  "ledgerCeiling = \<lparr>jackpot_state = Some \<lparr>current_amount = 10000000,
                  last_update = ''2024-05-01T08:30:00.000Z'', last_modified_by = ''system'',
                  version = 7\<rparr>,
               jackpot_history = [],
               daily_target = [\<lparr>target_x = 13, target_y = 14, target_date = ''2024-05-01'',
                                target_version = 1\<rparr>],
               click_attempts = []\<rparr>"
  by (simp add: ledgerCeiling_def ledger0_value)

lemma targetCeiling:
  "getOrCreateDailyTargetPixel (target_clock env0) (target_random_x env0) (target_random_y env0)
     ledgerCeiling = (\<lparr>pixel_x = 13, pixel_y = 14, pixel_date = ''2024-05-01''\<rparr>, ledgerCeiling)"
  by (simp add: getOrCreateDailyTargetPixel_def env0_def isoDate_examples ledgerCeiling_value Let_def)

lemma gateCeiling: "\<not> hasAttemptedToday u d ledgerCeiling"
  by (simp add: hasAttemptedToday_def ledgerCeiling_value)

lemma overCeiling: "Math_round ((getJackpot ledgerCeiling + 1 / 1000) * 1000) / 1000 = 10000000001 / 1000"
  by (simp add: getJackpot_def ledgerCeiling_value Math_round_def)

lemma valid_13_14: "\<not> invalidCoordinates 13 14"
  by (simp add: invalidCoordinates_def Number_isInteger_def)

lemma roundedDistance_0_0:
  "roundedDistance \<lparr>pixel_x = 13, pixel_y = 14, pixel_date = d\<rparr> 13 14 = 0"
  by (simp add: roundedDistance_def distance_def Math_round_def)

lemma first_click0:
  "handleClick env0 10 10 ''203.0.113.9'' ledger0 =
     (Miss 5 13 14 (100001 / 1000),
      \<lparr>jackpot_state = Some \<lparr>current_amount = 100001 / 1000,
          last_update = ''2024-05-01T09:30:00.002Z'', last_modified_by = ''203.0.113.9'',
          version = 2\<rparr>,
        jackpot_history = [\<lparr>timestamp = ''2024-05-01T09:30:00.003Z'', previous_amount = 100,
          new_amount = 100001 / 1000, action_type = ''INCREMENT'', user_id = ''203.0.113.9''\<rparr>],
        daily_target = [\<lparr>target_x = 13, target_y = 14, target_date = ''2024-05-01'',
          target_version = 1\<rparr>],
        click_attempts = [\<lparr>attempt_identifier = ''203.0.113.9'', attempt_date = ''2024-05-01'',
          attempt_timestamp = ''2024-05-01T09:30:00.005Z''\<rparr>]\<rparr>)"
  unfolding handleClick_passes_gate [OF valid_10_10 gate0] handleClick_try_result
  by (simp add: target0 Let_def row0 gate0 roundedDistance_3_4 getJackpot_def Math_round_def)
    (simp add: env0_def ledger0_value isoDate_examples)

lemma sameDay01: "isoDate (click_clock env1) = isoDate (click_clock env0)"
  by (simp add: env0_def env1_def isoDate_examples)

lemma invalid_1000_10: "invalidCoordinates 1000 10"
  by (simp add: invalidCoordinates_def)

lemma valid_20_30: "\<not> invalidCoordinates 20 30"
  by (simp add: invalidCoordinates_def Number_isInteger_def)

lemma valid_497_246: "\<not> invalidCoordinates 497 246"
  by (simp add: invalidCoordinates_def Number_isInteger_def)

lemma raced0:
  "hasAttemptedToday ''203.0.113.9'' (isoDate (click_clock env0))
     (otherConnection ''203.0.113.9'' ''2024-05-01'' ''2024-05-01T09:30:00.000Z'' ledger0)"
  by (simp add: hasAttemptedToday_def otherConnection_def ledger0_value env0_def isoDate_examples)

lemma target_other0:
  "snd (getOrCreateDailyTargetPixel (target_clock env0) (target_random_x env0)
          (target_random_y env0)
          (otherConnection ''203.0.113.9'' ''2024-05-01'' ''2024-05-01T09:30:00.000Z'' ledger0)) =
   otherConnection ''203.0.113.9'' ''2024-05-01'' ''2024-05-01T09:30:00.000Z'' ledger0"
  by (simp add: getOrCreateDailyTargetPixel_def Let_def otherConnection_def ledger0_value env0_def
      isoDate_examples)

lemma row_other0:
  "jackpot_state (otherConnection u d n ledger0) = Some \<lparr>current_amount = 100,
     last_update = ''2024-05-01T08:00:00.000Z'', last_modified_by = ''system'', version = 1\<rparr>"
  by (simp add: otherConnection_def ledger0_value)

lemma reachable_ledger0: "reachable ledger0"
  unfolding ledger0_def by (rule reachable.fresh)

lemma first_tick0:
  "performAutoIncrement tick0 ledger0 =
     (TickSuccess (10001 / 100),
      \<lparr>jackpot_state = Some \<lparr>current_amount = 10001 / 100,
          last_update = ''2024-05-01T09:35:00.000Z'', last_modified_by = ''system'',
          version = 2\<rparr>,
        jackpot_history = [\<lparr>timestamp = ''2024-05-01T09:35:00.001Z'', previous_amount = 100,
          new_amount = 10001 / 100, action_type = ''AUTO_INCREMENT'', user_id = ''system''\<rparr>],
        daily_target = [\<lparr>target_x = 13, target_y = 14, target_date = ''2024-05-01'',
          target_version = 1\<rparr>],
        click_attempts = []\<rparr>)"
  by (simp add: performAutoIncrement_def Let_def autoIncrementTransaction_result getJackpot_def
      ledger0_value tick0_def Math_round_def)

lemma sqrt_2_bounds: "14142 / 10000 < sqrt 2" "sqrt 2 < 14143 / 10000"
proof -
  have "(14142 / 10000)\<^sup>2 < (2::real)" by (simp add: power2_eq_square)
  then show "14142 / 10000 < sqrt 2" by (rule real_less_rsqrt)
  have "(2::real) < (14143 / 10000)\<^sup>2" by (simp add: power2_eq_square)
  then show "sqrt 2 < 14143 / 10000" by (intro real_less_lsqrt) simp_all
qed

lemma ledgerOffGrid_value:
  "ledgerOffGrid = \<lparr>jackpot_state = Some \<lparr>current_amount = 1000004 / 10000,
                  last_update = ''2024-04-30T12:00:00.000Z'', last_modified_by = ''import'',
                  version = 3\<rparr>,
               jackpot_history = [],
               daily_target = [\<lparr>target_x = 13, target_y = 14, target_date = ''2024-05-01'',
                                target_version = 1\<rparr>],
               click_attempts = []\<rparr>"
  by (simp add: ledgerOffGrid_def ledger0_value)

lemma rowOffGrid:
  "jackpot_state ledgerOffGrid = Some \<lparr>current_amount = 1000004 / 10000,
     last_update = ''2024-04-30T12:00:00.000Z'', last_modified_by = ''import'', version = 3\<rparr>"
  by (simp add: ledgerOffGrid_value)

lemma gateOffGrid: "\<not> hasAttemptedToday u d ledgerOffGrid"
  by (simp add: hasAttemptedToday_def ledgerOffGrid_value)

lemma targetOffGrid:
  "getOrCreateDailyTargetPixel (target_clock env0) (target_random_x env0) (target_random_y env0)
     ledgerOffGrid = (\<lparr>pixel_x = 13, pixel_y = 14, pixel_date = ''2024-05-01''\<rparr>, ledgerOffGrid)"
  by (simp add: getOrCreateDailyTargetPixel_def env0_def isoDate_examples ledgerOffGrid_value
      Let_def)

lemma valid_12_13: "\<not> invalidCoordinates 12 13"
  by (simp add: invalidCoordinates_def Number_isInteger_def)

lemma tick_offgrid:
  "performAutoIncrement tick0 ledgerOffGrid =
     (TickSuccess (10001 / 100),
      \<lparr>jackpot_state = Some \<lparr>current_amount = 10001 / 100,
          last_update = ''2024-05-01T09:35:00.000Z'', last_modified_by = ''system'',
          version = 4\<rparr>,
        jackpot_history = [\<lparr>timestamp = ''2024-05-01T09:35:00.001Z'',
          previous_amount = 1000004 / 10000, new_amount = 10001 / 100,
          action_type = ''AUTO_INCREMENT'', user_id = ''system''\<rparr>],
        daily_target = [\<lparr>target_x = 13, target_y = 14, target_date = ''2024-05-01'',
          target_version = 1\<rparr>],
        click_attempts = []\<rparr>)"
  by (simp add: performAutoIncrement_def Let_def autoIncrementTransaction_result getJackpot_def
      ledgerOffGrid_value tick0_def Math_round_def)

lemma isoDate_midnight:
  "isoDate ''2024-05-01T23:59:59.998Z'' = ''2024-05-01''"
  "isoDate ''2024-05-01T23:59:59.999Z'' = ''2024-05-01''"
  "isoDate ''2024-05-02T00:00:00.001Z'' = ''2024-05-02''"
  by (simp_all add: isoDate_def)

lemma targetMidnight:
  "getOrCreateDailyTargetPixel (target_clock envMidnight) (target_random_x envMidnight)
     (target_random_y envMidnight) ledger0 =
     (\<lparr>pixel_x = 13, pixel_y = 14, pixel_date = ''2024-05-01''\<rparr>, ledger0)"
  by (simp add: getOrCreateDailyTargetPixel_def envMidnight_def isoDate_midnight ledger0_value
      Let_def)

lemma midnight_click:
  "handleClick envMidnight 13 14 ''198.51.100.4'' ledger0 =
     (Win 0 13 14 100 100,
      \<lparr>jackpot_state = Some \<lparr>current_amount = 100,
          last_update = ''2024-05-01T23:59:59.999Z'', last_modified_by = ''198.51.100.4'',
          version = 2\<rparr>,
        jackpot_history = [\<lparr>timestamp = ''2024-05-02T00:00:00.000Z'', previous_amount = 100,
          new_amount = 100, action_type = ''JACKPOT_WIN'', user_id = ''198.51.100.4''\<rparr>],
        daily_target =
          [\<lparr>target_x = 13, target_y = 14, target_date = ''2024-05-01'', target_version = 1\<rparr>,
           \<lparr>target_x = 750, target_y = 125, target_date = ''2024-05-02'', target_version = 1\<rparr>],
        click_attempts = [\<lparr>attempt_identifier = ''198.51.100.4'', attempt_date = ''2024-05-01'',
          attempt_timestamp = ''2024-05-02T00:00:00.002Z''\<rparr>]\<rparr>)"
  unfolding handleClick_passes_gate [OF valid_13_14 gate0] handleClick_try_result
  by (simp add: targetMidnight Let_def row0 gate0 roundedDistance_0_0)
    (simp add: envMidnight_def ledger0_value isoDate_midnight forceNewDailyTarget_result
      Math_floor_def)

lemma second_click_on_target:
  "handleClick env1 13 14 ''203.0.113.9'' (snd (handleClick env0 10 10 ''203.0.113.9'' ledger0)) =
     (ClickError attempt_limit ''You have already made your attempt for today.'',
      snd (handleClick env0 10 10 ''203.0.113.9'' ledger0))"
  by (rule handleClick_gate_closed [OF valid_13_14])
    (simp add: first_click0 hasAttemptedToday_def env1_def isoDate_examples)

lemma other0_value:
  "otherConnection u d n ledger0 =
     \<lparr>jackpot_state = Some \<lparr>current_amount = 100,
          last_update = ''2024-05-01T08:00:00.000Z'', last_modified_by = ''system'',
          version = 1\<rparr>,
      jackpot_history = [],
      daily_target = [\<lparr>target_x = 13, target_y = 14, target_date = ''2024-05-01'',
                       target_version = 1\<rparr>],
      click_attempts = [\<lparr>attempt_identifier = u, attempt_date = d, attempt_timestamp = n\<rparr>]\<rparr>"
  by (simp add: otherConnection_def ledger0_value)

lemma winUnit_partial:
  "winUnit env0 100 100 ''198.51.100.4'' ''2024-05-01''
     (otherConnection ''198.51.100.4'' ''2024-05-01'' ''2024-05-01T09:30:00.000Z'' ledger0) =
     (Inl SqliteConstraintUnique,
      \<lparr>jackpot_state = Some \<lparr>current_amount = 100,
          last_update = ''2024-05-01T09:30:00.002Z'', last_modified_by = ''198.51.100.4'',
          version = 2\<rparr>,
        jackpot_history = [\<lparr>timestamp = ''2024-05-01T09:30:00.003Z'', previous_amount = 100,
          new_amount = 100, action_type = ''JACKPOT_WIN'', user_id = ''198.51.100.4''\<rparr>],
        daily_target = [\<lparr>target_x = 750, target_y = 125, target_date = ''2024-05-01'',
          target_version = 2\<rparr>],
        click_attempts = [\<lparr>attempt_identifier = ''198.51.100.4'', attempt_date = ''2024-05-01'',
          attempt_timestamp = ''2024-05-01T09:30:00.000Z''\<rparr>]\<rparr>)"
  by (simp add: winUnit_def andThen_def resetJackpot_def updateJackpot_result other0_value
      logJackpotHistory_def forceNewDailyTarget_result recordClickAttempt_def throw_def env0_def
      isoDate_examples Math_round_def Math_floor_def)

lemma win_race_run:
  "handleClick_concurrent
     (otherConnection ''198.51.100.4'' ''2024-05-01'' ''2024-05-01T09:30:00.000Z'')
     env0 13 14 ''198.51.100.4'' ledger0 =
     (ClickError server_error ''An unexpected server error occurred.'',
      otherConnection ''198.51.100.4'' ''2024-05-01'' ''2024-05-01T09:30:00.000Z'' ledger0)"
proof -
  have raced: "hasAttemptedToday ''198.51.100.4'' (isoDate (click_clock env0))
     (otherConnection ''198.51.100.4'' ''2024-05-01'' ''2024-05-01T09:30:00.000Z'' ledger0)"
    by (simp add: hasAttemptedToday_def other0_value env0_def isoDate_examples)
  have target: "snd (getOrCreateDailyTargetPixel (target_clock env0) (target_random_x env0)
          (target_random_y env0)
          (otherConnection ''198.51.100.4'' ''2024-05-01'' ''2024-05-01T09:30:00.000Z'' ledger0)) =
     otherConnection ''198.51.100.4'' ''2024-05-01'' ''2024-05-01T09:30:00.000Z'' ledger0"
    by (simp add: getOrCreateDailyTargetPixel_def Let_def other0_value env0_def isoDate_examples)
  show ?thesis
    by (simp add: handleClick_concurrent_def valid_13_14 gate0 Let_def
        handleClick_try_attempted [OF raced] target)
qed

lemma new_day_race_run:
  "handleClick_concurrent
     (otherConnection ''203.0.113.9'' ''2024-05-02'' ''2024-05-02T07:00:00.000Z'')
     env2 497 246 ''203.0.113.9'' ledger0 =
     (ClickError server_error ''An unexpected server error occurred.'',
      \<lparr>jackpot_state = Some \<lparr>current_amount = 100,
          last_update = ''2024-05-01T08:00:00.000Z'', last_modified_by = ''system'',
          version = 1\<rparr>,
        jackpot_history = [],
        daily_target =
          [\<lparr>target_x = 13, target_y = 14, target_date = ''2024-05-01'', target_version = 1\<rparr>,
           \<lparr>target_x = 500, target_y = 250, target_date = ''2024-05-02'', target_version = 1\<rparr>],
        click_attempts = [\<lparr>attempt_identifier = ''203.0.113.9'', attempt_date = ''2024-05-02'',
          attempt_timestamp = ''2024-05-02T07:00:00.000Z''\<rparr>]\<rparr>)"
proof -
  have raced: "hasAttemptedToday ''203.0.113.9'' (isoDate (click_clock env2))
     (otherConnection ''203.0.113.9'' ''2024-05-02'' ''2024-05-02T07:00:00.000Z'' ledger0)"
    by (simp add: hasAttemptedToday_def other0_value env2_def isoDate_examples)
  have target: "snd (getOrCreateDailyTargetPixel (target_clock env2) (target_random_x env2)
          (target_random_y env2)
          (otherConnection ''203.0.113.9'' ''2024-05-02'' ''2024-05-02T07:00:00.000Z'' ledger0)) =
      \<lparr>jackpot_state = Some \<lparr>current_amount = 100,
          last_update = ''2024-05-01T08:00:00.000Z'', last_modified_by = ''system'',
          version = 1\<rparr>,
        jackpot_history = [],
        daily_target =
          [\<lparr>target_x = 13, target_y = 14, target_date = ''2024-05-01'', target_version = 1\<rparr>,
           \<lparr>target_x = 500, target_y = 250, target_date = ''2024-05-02'', target_version = 1\<rparr>],
        click_attempts = [\<lparr>attempt_identifier = ''203.0.113.9'', attempt_date = ''2024-05-02'',
          attempt_timestamp = ''2024-05-02T07:00:00.000Z''\<rparr>]\<rparr>"
    by (simp add: getOrCreateDailyTargetPixel_def Let_def other0_value env2_def isoDate_examples
        Math_floor_def)
  show ?thesis
    by (simp add: handleClick_concurrent_def valid_497_246 gate0 Let_def
        handleClick_try_attempted [OF raced] target)
qed

section \<open>The claims\<close>

subsection \<open>The uniqueness violation inside the transaction\<close>

text \<open>
  C1, as the code has it: when the attempt row of the same identifier and date is
  committed by another connection after the pre-check has passed, the INSERT of
  recordClickAttempt fails on the uniqueness constraint and handleClick rejects the whole
  click with the generic server error, the one outcome of its catch block; the
  transaction is rolled back.
\<close>

theorem handleClick_unique_violation:
  assumes valid: "\<not> invalidCoordinates x y"
    and gate: "\<not> hasAttemptedToday u (isoDate (click_clock env)) db"
    and raced: "hasAttemptedToday u (isoDate (click_clock env)) (other db)"
  shows "recordClickAttempt u (isoDate (click_clock env)) (attempt_clock env) (other db) =
           (Inl SqliteConstraintUnique, other db) \<and>
         handleClick_concurrent other env x y u db =
           (ClickError server_error ''An unexpected server error occurred.'',
            snd (getOrCreateDailyTargetPixel (target_clock env) (target_random_x env)
                   (target_random_y env) (other db)))"
proof -
  have insert: "recordClickAttempt u (isoDate (click_clock env)) (attempt_clock env) (other db) =
           (Inl SqliteConstraintUnique, other db)"
    using raced by (simp add: recordClickAttempt_def hasAttemptedToday_list_ex throw_def)
  have "handleClick_concurrent other env x y u db =
          handleClick_try env x y u (isoDate (click_clock env)) (other db)"
    using valid gate by (simp add: handleClick_concurrent_def Let_def)
  with insert show ?thesis by (simp add: handleClick_try_attempted [OF raced])
qed

theorem handleClick_unique_violation_witness:
  "\<not> invalidCoordinates 10 10 \<and>
   \<not> hasAttemptedToday ''203.0.113.9'' (isoDate (click_clock env0)) ledger0 \<and>
   hasAttemptedToday ''203.0.113.9'' (isoDate (click_clock env0))
     (otherConnection ''203.0.113.9'' ''2024-05-01'' ''2024-05-01T09:30:00.000Z'' ledger0) \<and>
   handleClick_concurrent
     (otherConnection ''203.0.113.9'' ''2024-05-01'' ''2024-05-01T09:30:00.000Z'')
     env0 10 10 ''203.0.113.9'' ledger0 =
     (ClickError server_error ''An unexpected server error occurred.'',
      otherConnection ''203.0.113.9'' ''2024-05-01'' ''2024-05-01T09:30:00.000Z'' ledger0)"
  using handleClick_unique_violation [where x = 10 and y = 10 and u = "''203.0.113.9''"
      and env = env0 and db = ledger0
      and other = "otherConnection ''203.0.113.9'' ''2024-05-01'' ''2024-05-01T09:30:00.000Z''",
      OF valid_10_10 gate0 raced0]
    valid_10_10 gate0 [of "''203.0.113.9''" "isoDate (click_clock env0)"] raced0
  by (simp add: target_other0)

text \<open>
  C1 as stated fails: the pre-check passes on the ledger, another connection commits the
  caller's attempt row, the transaction of the miss then fails on the uniqueness
  constraint, and the outcome is the server error, not the attempt-limit error.
\<close>

theorem handleClick_unique_violation_counterexample:
  "\<not> hasAttemptedToday ''203.0.113.9'' (isoDate (click_clock env0)) ledger0 \<and>
   missTransaction env0 100 (100001 / 1000) ''203.0.113.9'' ''2024-05-01''
     (otherConnection ''203.0.113.9'' ''2024-05-01'' ''2024-05-01T09:30:00.000Z'' ledger0) =
     (Inl SqliteConstraintUnique,
      otherConnection ''203.0.113.9'' ''2024-05-01'' ''2024-05-01T09:30:00.000Z'' ledger0) \<and>
   fst (handleClick_concurrent
          (otherConnection ''203.0.113.9'' ''2024-05-01'' ''2024-05-01T09:30:00.000Z'')
          env0 10 10 ''203.0.113.9'' ledger0) =
     ClickError server_error ''An unexpected server error occurred.''"
proof -
  have raced: "hasAttemptedToday ''203.0.113.9'' ''2024-05-01''
     (otherConnection ''203.0.113.9'' ''2024-05-01'' ''2024-05-01T09:30:00.000Z'' ledger0)"
    using raced0 by (simp add: env0_def isoDate_examples)
  have unit: "missTransaction env0 100 (100001 / 1000) ''203.0.113.9'' ''2024-05-01''
     (otherConnection ''203.0.113.9'' ''2024-05-01'' ''2024-05-01T09:30:00.000Z'' ledger0) =
     (Inl SqliteConstraintUnique,
      otherConnection ''203.0.113.9'' ''2024-05-01'' ''2024-05-01T09:30:00.000Z'' ledger0)"
    by (simp add: missTransaction_result row_other0 raced)
  have outcome: "fst (handleClick_concurrent
          (otherConnection ''203.0.113.9'' ''2024-05-01'' ''2024-05-01T09:30:00.000Z'')
          env0 10 10 ''203.0.113.9'' ledger0) =
     ClickError server_error ''An unexpected server error occurred.''"
    by (simp add: handleClick_concurrent_def valid_10_10 gate0 Let_def
        handleClick_try_attempted [OF raced0])
  show ?thesis using gate0 [of "''203.0.113.9''" "isoDate (click_clock env0)"] unit outcome
    by simp
qed

subsection \<open>A second click on the same day\<close>

text \<open>
  C2, as the code has it: after a handleClick call that succeeded (Win or Miss), a second
  call for the same identifier on the same calendar day returns the attempt-limit error
  for every pair of in-range integer coordinates and the validation error for every other
  pair, and in both cases the ledger it leaves is the ledger it was given.
\<close>

theorem handleClick_second_call:
  assumes first: "handleClick env x y u db = (outcome, db1)"
    and success: "\<forall>t m. outcome \<noteq> ClickError t m"
    and sameDay: "isoDate (click_clock env') = isoDate (click_clock env)"
  shows "handleClick env' x' y' u db1 =
           (if invalidCoordinates x' y'
            then (ClickError validation ''Invalid coordinates.'', db1)
            else (ClickError attempt_limit ''You have already made your attempt for today.'',
                  db1))"
proof -
  have body: "handleClick_try env x y u (isoDate (click_clock env)) db = (outcome, db1)"
    using first success by (auto simp add: handleClick_def Let_def split: if_splits)
  have "hasAttemptedToday u (isoDate (click_clock env)) db1"
    by (rule handleClick_try_success_attempt [OF body success])
  then show ?thesis by (simp add: handleClick_def Let_def sameDay)
qed

theorem handleClick_second_call_witness:
  "isoDate (click_clock env1) = isoDate (click_clock env0) \<and>
   fst (handleClick env0 10 10 ''203.0.113.9'' ledger0) = Miss 5 13 14 (100001 / 1000) \<and>
   handleClick env1 20 30 ''203.0.113.9'' (snd (handleClick env0 10 10 ''203.0.113.9'' ledger0)) =
     (ClickError attempt_limit ''You have already made your attempt for today.'',
      snd (handleClick env0 10 10 ''203.0.113.9'' ledger0))"
proof -
  have success: "\<forall>t m. Miss 5 13 14 (100001 / 1000) \<noteq> ClickError t m" by simp
  show ?thesis
    using handleClick_second_call [OF first_click0 success sameDay01, of 20 30]
    by (simp add: first_click0 sameDay01 valid_20_30)
qed

text \<open>
  C2 as stated fails for coordinates out of range: the validation guard comes before the
  gate, so the second call is rejected as invalid, not as over the limit.
\<close>

theorem handleClick_second_call_counterexample:
  "isoDate (click_clock env1) = isoDate (click_clock env0) \<and>
   fst (handleClick env0 10 10 ''203.0.113.9'' ledger0) = Miss 5 13 14 (100001 / 1000) \<and>
   fst (handleClick env1 1000 10 ''203.0.113.9''
          (snd (handleClick env0 10 10 ''203.0.113.9'' ledger0))) =
     ClickError validation ''Invalid coordinates.''"
proof -
  have second: "\<And>d. handleClick env1 1000 10 ''203.0.113.9'' d =
      (ClickError validation ''Invalid coordinates.'', d)"
    by (simp add: handleClick_def invalid_1000_10)
  show ?thesis by (simp add: first_click0 sameDay01 second)
qed

subsection \<open>Errors and the ledger\<close>

text \<open>
  C3, as the code has it. Any failure raised inside a click's mutation unit, the
  attempt-uniqueness violation included, aborts the whole unit: after handleClick returns
  an error, the jackpot state, the history log and the attempt table are exactly as they
  were when the unit began (as before the call, with what other connections have
  committed since). The daily-target table is as it was too, except that the row of the
  current date, when the table had none, has been inserted at version 1 by
  getOrCreateDailyTargetPixel, which runs before the transaction and is not undone by
  its rollback. A click rejected by validation or by the gate changes nothing at all.
\<close>

theorem handleClick_error_leaves_ledger:
  assumes "handleClick_concurrent other env x y u db = (ClickError t m, db')"
  shows "(t \<noteq> server_error \<longrightarrow> db' = db) \<and>
         (t = server_error \<longrightarrow>
            jackpot_state db' = jackpot_state (other db) \<and>
            jackpot_history db' = jackpot_history (other db) \<and>
            click_attempts db' = click_attempts (other db) \<and>
            daily_target db' =
              (case find (\<lambda>r. target_date r = isoDate (target_clock env))
                      (daily_target (other db)) of
                 Some r \<Rightarrow> daily_target (other db)
               | None \<Rightarrow> daily_target (other db) @
                   [\<lparr>target_x = Math_floor (target_random_x env * 1000),
                     target_y = Math_floor (target_random_y env * 1000),
                     target_date = isoDate (target_clock env), target_version = 1\<rparr>]))"
  using handleClick_concurrent_error [OF assms]
  by (auto simp add: getOrCreateDailyTargetPixel_other getOrCreateDailyTargetPixel_targets)

theorem handleClick_error_leaves_ledger_witness:
  "\<not> hasAttemptedToday ''198.51.100.4'' (isoDate (click_clock env0)) ledger0 \<and>
   winUnit env0 100 100 ''198.51.100.4'' ''2024-05-01''
     (otherConnection ''198.51.100.4'' ''2024-05-01'' ''2024-05-01T09:30:00.000Z'' ledger0) =
     (Inl SqliteConstraintUnique,
      \<lparr>jackpot_state = Some \<lparr>current_amount = 100,
          last_update = ''2024-05-01T09:30:00.002Z'', last_modified_by = ''198.51.100.4'',
          version = 2\<rparr>,
        jackpot_history = [\<lparr>timestamp = ''2024-05-01T09:30:00.003Z'', previous_amount = 100,
          new_amount = 100, action_type = ''JACKPOT_WIN'', user_id = ''198.51.100.4''\<rparr>],
        daily_target = [\<lparr>target_x = 750, target_y = 125, target_date = ''2024-05-01'',
          target_version = 2\<rparr>],
        click_attempts = [\<lparr>attempt_identifier = ''198.51.100.4'', attempt_date = ''2024-05-01'',
          attempt_timestamp = ''2024-05-01T09:30:00.000Z''\<rparr>]\<rparr>) \<and>
   fst (handleClick_concurrent
          (otherConnection ''198.51.100.4'' ''2024-05-01'' ''2024-05-01T09:30:00.000Z'')
          env0 13 14 ''198.51.100.4'' ledger0) =
     ClickError server_error ''An unexpected server error occurred.'' \<and>
   jackpot_state (snd (handleClick_concurrent
          (otherConnection ''198.51.100.4'' ''2024-05-01'' ''2024-05-01T09:30:00.000Z'')
          env0 13 14 ''198.51.100.4'' ledger0)) =
     Some \<lparr>current_amount = 100, last_update = ''2024-05-01T08:00:00.000Z'',
            last_modified_by = ''system'', version = 1\<rparr> \<and>
   jackpot_history (snd (handleClick_concurrent
          (otherConnection ''198.51.100.4'' ''2024-05-01'' ''2024-05-01T09:30:00.000Z'')
          env0 13 14 ''198.51.100.4'' ledger0)) = [] \<and>
   click_attempts (snd (handleClick_concurrent
          (otherConnection ''198.51.100.4'' ''2024-05-01'' ''2024-05-01T09:30:00.000Z'')
          env0 13 14 ''198.51.100.4'' ledger0)) =
     [\<lparr>attempt_identifier = ''198.51.100.4'', attempt_date = ''2024-05-01'',
       attempt_timestamp = ''2024-05-01T09:30:00.000Z''\<rparr>] \<and>
   daily_target (snd (handleClick_concurrent
          (otherConnection ''198.51.100.4'' ''2024-05-01'' ''2024-05-01T09:30:00.000Z'')
          env0 13 14 ''198.51.100.4'' ledger0)) =
     [\<lparr>target_x = 13, target_y = 14, target_date = ''2024-05-01'', target_version = 1\<rparr>]"
proof -
  from handleClick_error_leaves_ledger [OF win_race_run]
  have kept: "jackpot_state (snd (handleClick_concurrent
          (otherConnection ''198.51.100.4'' ''2024-05-01'' ''2024-05-01T09:30:00.000Z'')
          env0 13 14 ''198.51.100.4'' ledger0)) =
       Some \<lparr>current_amount = 100, last_update = ''2024-05-01T08:00:00.000Z'',
            last_modified_by = ''system'', version = 1\<rparr> \<and>
     jackpot_history (snd (handleClick_concurrent
          (otherConnection ''198.51.100.4'' ''2024-05-01'' ''2024-05-01T09:30:00.000Z'')
          env0 13 14 ''198.51.100.4'' ledger0)) = [] \<and>
     click_attempts (snd (handleClick_concurrent
          (otherConnection ''198.51.100.4'' ''2024-05-01'' ''2024-05-01T09:30:00.000Z'')
          env0 13 14 ''198.51.100.4'' ledger0)) =
       [\<lparr>attempt_identifier = ''198.51.100.4'', attempt_date = ''2024-05-01'',
         attempt_timestamp = ''2024-05-01T09:30:00.000Z''\<rparr>]"
    by (simp add: win_race_run other0_value)
  have outcome: "fst (handleClick_concurrent
          (otherConnection ''198.51.100.4'' ''2024-05-01'' ''2024-05-01T09:30:00.000Z'')
          env0 13 14 ''198.51.100.4'' ledger0) =
     ClickError server_error ''An unexpected server error occurred.''"
    by (simp add: win_race_run)
  have targets: "daily_target (snd (handleClick_concurrent
          (otherConnection ''198.51.100.4'' ''2024-05-01'' ''2024-05-01T09:30:00.000Z'')
          env0 13 14 ''198.51.100.4'' ledger0)) =
     [\<lparr>target_x = 13, target_y = 14, target_date = ''2024-05-01'', target_version = 1\<rparr>]"
    by (simp add: win_race_run other0_value)
  show ?thesis
    using kept outcome targets gate0 [of "''198.51.100.4''" "isoDate (click_clock env0)"]
      winUnit_partial
    by simp
qed

text \<open>
  C3 as stated fails on the first click of a day when that click's transaction fails:
  on 2024-05-02 the caller's attempt row is committed by another connection after the
  pre-check, the transaction of the miss is rolled back and answered with the server
  error, and the target row of 2024-05-02, inserted before the transaction began, stays
  in the table.
\<close>

theorem handleClick_error_leaves_ledger_counterexample:
  "\<not> hasAttemptedToday ''203.0.113.9'' (isoDate (click_clock env2)) ledger0 \<and>
   fst (handleClick_concurrent
          (otherConnection ''203.0.113.9'' ''2024-05-02'' ''2024-05-02T07:00:00.000Z'')
          env2 497 246 ''203.0.113.9'' ledger0) =
     ClickError server_error ''An unexpected server error occurred.'' \<and>
   daily_target ledger0 =
     [\<lparr>target_x = 13, target_y = 14, target_date = ''2024-05-01'', target_version = 1\<rparr>] \<and>
   daily_target
     (otherConnection ''203.0.113.9'' ''2024-05-02'' ''2024-05-02T07:00:00.000Z'' ledger0) =
     [\<lparr>target_x = 13, target_y = 14, target_date = ''2024-05-01'', target_version = 1\<rparr>] \<and>
   daily_target (snd (handleClick_concurrent
          (otherConnection ''203.0.113.9'' ''2024-05-02'' ''2024-05-02T07:00:00.000Z'')
          env2 497 246 ''203.0.113.9'' ledger0)) =
     [\<lparr>target_x = 13, target_y = 14, target_date = ''2024-05-01'', target_version = 1\<rparr>,
      \<lparr>target_x = 500, target_y = 250, target_date = ''2024-05-02'', target_version = 1\<rparr>] \<and>
   daily_target (snd (handleClick_concurrent
          (otherConnection ''203.0.113.9'' ''2024-05-02'' ''2024-05-02T07:00:00.000Z'')
          env2 497 246 ''203.0.113.9'' ledger0)) \<noteq> daily_target ledger0"
  using gate0 [of "''203.0.113.9''" "isoDate (click_clock env2)"]
  by (simp add: new_day_race_run other0_value) (simp add: ledger0_value)

subsection \<open>Win\<close>

text \<open>
  C4, as the code has it. On a ledger the program has produced, handleClick returns a Win
  exactly when the click passes validation and the gate and is on the day's target; for
  valid coordinates that is exactly when the Euclidean distance to the target, rounded to
  3 decimals, is 0. Then the jackpot is reset to 100 in the caller's name, one JACKPOT_WIN
  history entry from the pre-click amount to 100 is appended, the attempt is recorded and
  the Win carries the pre-click amount as wonAmount. The version of the day's target goes
  up by 1 when forceNewDailyTarget reads the date the target was read on; when the date
  has changed in between, the day's target row is left as it was.
\<close>

theorem handleClick_win:
  assumes reach: "reachable db"
    and target: "getOrCreateDailyTargetPixel (target_clock env) (target_random_x env)
                   (target_random_y env) db = (targetPixel, db1)"
  shows "((\<exists>d tx ty won base. fst (handleClick env x y u db) = Win d tx ty won base) =
            (\<not> invalidCoordinates x y \<and>
             \<not> hasAttemptedToday u (isoDate (click_clock env)) db \<and>
             x = of_int (pixel_x targetPixel) \<and> y = of_int (pixel_y targetPixel))) \<and>
         (\<not> invalidCoordinates x y \<longrightarrow>
            (\<lfloor>sqrt ((of_int (pixel_x targetPixel) - x)\<^sup>2 +
                     (of_int (pixel_y targetPixel) - y)\<^sup>2) * 1000 + 1 / 2\<rfloor> = 0) =
            (x = of_int (pixel_x targetPixel) \<and> y = of_int (pixel_y targetPixel))) \<and>
         (\<not> invalidCoordinates x y \<and>
          \<not> hasAttemptedToday u (isoDate (click_clock env)) db \<and>
          x = of_int (pixel_x targetPixel) \<and> y = of_int (pixel_y targetPixel) \<longrightarrow>
            (\<exists>row r db'.
               jackpot_state db = Some row \<and>
               handleClick env x y u db =
                 (Win 0 (pixel_x targetPixel) (pixel_y targetPixel) (current_amount row) 100, db') \<and>
               jackpot_state db' = Some (row\<lparr>current_amount := 100,
                  last_update := update_clock env, last_modified_by := u,
                  version := version row + 1\<rparr>) \<and>
               jackpot_history db' = jackpot_history db @
                  [\<lparr>timestamp = history_clock env, previous_amount = current_amount row,
                    new_amount = 100, action_type = ''JACKPOT_WIN'', user_id = u\<rparr>] \<and>
               click_attempts db' = click_attempts db @
                  [\<lparr>attempt_identifier = u, attempt_date = isoDate (click_clock env),
                    attempt_timestamp = attempt_clock env\<rparr>] \<and>
               find (\<lambda>r. target_date r = isoDate (target_clock env)) (daily_target db1) = Some r \<and>
               target_x r = pixel_x targetPixel \<and> target_y r = pixel_y targetPixel \<and>
               find (\<lambda>r. target_date r = isoDate (target_clock env)) (daily_target db') =
                 (if isoDate (force_clock env) = isoDate (target_clock env)
                  then Some (r\<lparr>target_x := Math_floor (force_random_x env * 1000),
                               target_y := Math_floor (force_random_y env * 1000),
                               target_version := target_version r + 1\<rparr>)
                  else Some r)))"
proof -
  from reachable_jackpot_bounds [OF reach]
  obtain row where row: "jackpot_state db = Some row" by auto
  from getOrCreateDailyTargetPixel_row [of "target_clock env" "target_random_x env"
      "target_random_y env" db]
  obtain r where r: "find (\<lambda>r. target_date r = isoDate (target_clock env)) (daily_target db1) = Some r"
    "target_x r = pixel_x targetPixel" "target_y r = pixel_y targetPixel"
    by (auto simp add: target)
  have rotated: "find (\<lambda>r. target_date r = isoDate (target_clock env))
           (daily_target (snd (forceNewDailyTarget (force_clock env) (force_random_x env)
              (force_random_y env) db1))) =
         (if isoDate (force_clock env) = isoDate (target_clock env)
          then Some (r\<lparr>target_x := Math_floor (force_random_x env * 1000),
                       target_y := Math_floor (force_random_y env * 1000),
                       target_version := target_version r + 1\<rparr>)
          else Some r)"
  proof (cases "isoDate (force_clock env) = isoDate (target_clock env)")
    case True
    then show ?thesis
      using forceNewDailyTarget_existing [of "force_clock env" db1 r "force_random_x env"
          "force_random_y env"] r(1)
      by simp
  next
    case False
    then show ?thesis
      using forceNewDailyTarget_other_date [of "force_clock env" "isoDate (target_clock env)"
          "force_random_x env" "force_random_y env" db1] r(1)
      by simp
  qed
  have dist: "(\<lfloor>sqrt ((of_int (pixel_x targetPixel) - x)\<^sup>2 +
                     (of_int (pixel_y targetPixel) - y)\<^sup>2) * 1000 + 1 / 2\<rfloor> = 0) =
            (x = of_int (pixel_x targetPixel) \<and> y = of_int (pixel_y targetPixel))"
    if "\<not> invalidCoordinates x y"
    using that by (intro rounded_distance_zero_iff) (simp_all add: invalidCoordinates_def)
  define hit where "hit \<longleftrightarrow> \<not> invalidCoordinates x y \<and>
      \<not> hasAttemptedToday u (isoDate (click_clock env)) db \<and>
      x = of_int (pixel_x targetPixel) \<and> y = of_int (pixel_y targetPixel)"
  have won: "\<exists>db'.
        handleClick env x y u db =
          (Win 0 (pixel_x targetPixel) (pixel_y targetPixel) (current_amount row) 100, db') \<and>
        jackpot_state db' = Some (row\<lparr>current_amount := 100,
           last_update := update_clock env, last_modified_by := u,
           version := version row + 1\<rparr>) \<and>
        jackpot_history db' = jackpot_history db @
           [\<lparr>timestamp = history_clock env, previous_amount = current_amount row,
             new_amount = 100, action_type = ''JACKPOT_WIN'', user_id = u\<rparr>] \<and>
        click_attempts db' = click_attempts db @
           [\<lparr>attempt_identifier = u, attempt_date = isoDate (click_clock env),
             attempt_timestamp = attempt_clock env\<rparr>] \<and>
        find (\<lambda>r. target_date r = isoDate (target_clock env)) (daily_target db1) = Some r \<and>
        target_x r = pixel_x targetPixel \<and> target_y r = pixel_y targetPixel \<and>
        find (\<lambda>r. target_date r = isoDate (target_clock env)) (daily_target db') =
          (if isoDate (force_clock env) = isoDate (target_clock env)
           then Some (r\<lparr>target_x := Math_floor (force_random_x env * 1000),
                        target_y := Math_floor (force_random_y env * 1000),
                        target_version := target_version r + 1\<rparr>)
           else Some r)"
    if hit
  proof -
    from that have valid: "\<not> invalidCoordinates x y"
      and gate: "\<not> hasAttemptedToday u (isoDate (click_clock env)) db"
      and on: "x = of_int (pixel_x targetPixel) \<and> y = of_int (pixel_y targetPixel)"
      unfolding hit_def by blast+
    have rd: "roundedDistance targetPixel x y = 0"
      using on roundedDistance_zero_iff [OF valid, of targetPixel] by blast
    have "handleClick env x y u db =
        (Win 0 (pixel_x targetPixel) (pixel_y targetPixel) (current_amount row) 100,
                db1\<lparr>jackpot_state := Some (row\<lparr>current_amount := 100,
                       last_update := update_clock env, last_modified_by := u,
                       version := version row + 1\<rparr>),
                    jackpot_history := jackpot_history db @
                      [\<lparr>timestamp = history_clock env, previous_amount = current_amount row,
                        new_amount = 100, action_type = ''JACKPOT_WIN'', user_id = u\<rparr>],
                    daily_target := daily_target
                      (snd (forceNewDailyTarget (force_clock env) (force_random_x env)
                              (force_random_y env) db1)),
                    click_attempts := click_attempts db @
                      [\<lparr>attempt_identifier = u, attempt_date = isoDate (click_clock env),
                        attempt_timestamp = attempt_clock env\<rparr>]\<rparr>)"
      unfolding handleClick_passes_gate [OF valid gate] handleClick_try_result
      using row gate rd by (simp add: target Let_def)
    with r rotated show ?thesis by simp
  qed
  have not_won: "fst (handleClick env x y u db) \<noteq> Win d tx ty won base"
    if "\<not> hit" for d tx ty won base
  proof (cases "\<not> invalidCoordinates x y \<and>
      \<not> hasAttemptedToday u (isoDate (click_clock env)) db")
    case False
    then show ?thesis by (auto simp add: handleClick_def Let_def)
  next
    case True
    then have valid: "\<not> invalidCoordinates x y"
      and gate: "\<not> hasAttemptedToday u (isoDate (click_clock env)) db" by simp_all
    from that True have "\<not> (x = of_int (pixel_x targetPixel) \<and> y = of_int (pixel_y targetPixel))"
      unfolding hit_def by blast
    then have rd: "roundedDistance targetPixel x y \<noteq> 0"
      using roundedDistance_zero_iff [OF valid, of targetPixel] by blast
    show ?thesis
      unfolding handleClick_passes_gate [OF valid gate] handleClick_try_result
      using row gate rd by (simp add: target Let_def)
  qed
  have A: "(\<exists>d tx ty won base. fst (handleClick env x y u db) = Win d tx ty won base) = hit"
  proof (cases hit)
    case True
    from won [OF True] obtain db' where "handleClick env x y u db =
          (Win 0 (pixel_x targetPixel) (pixel_y targetPixel) (current_amount row) 100, db')"
      by blast
    then have "fst (handleClick env x y u db) =
        Win 0 (pixel_x targetPixel) (pixel_y targetPixel) (current_amount row) 100" by simp
    with True show ?thesis by blast
  next
    case False
    with not_won [OF False] show ?thesis by blast
  qed
  have B: "\<not> invalidCoordinates x y \<longrightarrow>
            (\<lfloor>sqrt ((of_int (pixel_x targetPixel) - x)\<^sup>2 +
                     (of_int (pixel_y targetPixel) - y)\<^sup>2) * 1000 + 1 / 2\<rfloor> = 0) =
            (x = of_int (pixel_x targetPixel) \<and> y = of_int (pixel_y targetPixel))"
    using dist by blast
  have C: "hit \<longrightarrow> (\<exists>row r db'.
               jackpot_state db = Some row \<and>
               handleClick env x y u db =
                 (Win 0 (pixel_x targetPixel) (pixel_y targetPixel) (current_amount row) 100, db') \<and>
               jackpot_state db' = Some (row\<lparr>current_amount := 100,
                  last_update := update_clock env, last_modified_by := u,
                  version := version row + 1\<rparr>) \<and>
               jackpot_history db' = jackpot_history db @
                  [\<lparr>timestamp = history_clock env, previous_amount = current_amount row,
                    new_amount = 100, action_type = ''JACKPOT_WIN'', user_id = u\<rparr>] \<and>
               click_attempts db' = click_attempts db @
                  [\<lparr>attempt_identifier = u, attempt_date = isoDate (click_clock env),
                    attempt_timestamp = attempt_clock env\<rparr>] \<and>
               find (\<lambda>r. target_date r = isoDate (target_clock env)) (daily_target db1) = Some r \<and>
               target_x r = pixel_x targetPixel \<and> target_y r = pixel_y targetPixel \<and>
               find (\<lambda>r. target_date r = isoDate (target_clock env)) (daily_target db') =
                 (if isoDate (force_clock env) = isoDate (target_clock env)
                  then Some (r\<lparr>target_x := Math_floor (force_random_x env * 1000),
                               target_y := Math_floor (force_random_y env * 1000),
                               target_version := target_version r + 1\<rparr>)
                  else Some r))"
    using won row by blast
  from A B C show ?thesis unfolding hit_def by (intro conjI)
qed

theorem handleClick_win_witness:
  "reachable ledger0 \<and>
   \<not> invalidCoordinates 13 14 \<and>
   \<not> hasAttemptedToday ''198.51.100.4'' (isoDate (click_clock env0)) ledger0 \<and>
   fst (handleClick env0 13 14 ''198.51.100.4'' ledger0) = Win 0 13 14 100 100 \<and>
   jackpot_state (snd (handleClick env0 13 14 ''198.51.100.4'' ledger0)) =
     Some \<lparr>current_amount = 100, last_update = ''2024-05-01T09:30:00.002Z'',
            last_modified_by = ''198.51.100.4'', version = 2\<rparr> \<and>
   jackpot_history (snd (handleClick env0 13 14 ''198.51.100.4'' ledger0)) =
     [\<lparr>timestamp = ''2024-05-01T09:30:00.003Z'', previous_amount = 100, new_amount = 100,
       action_type = ''JACKPOT_WIN'', user_id = ''198.51.100.4''\<rparr>] \<and>
   find (\<lambda>r. target_date r = ''2024-05-01'')
     (daily_target (snd (handleClick env0 13 14 ''198.51.100.4'' ledger0))) =
     Some \<lparr>target_x = 750, target_y = 125, target_date = ''2024-05-01'', target_version = 2\<rparr> \<and>
   click_attempts (snd (handleClick env0 13 14 ''198.51.100.4'' ledger0)) =
     [\<lparr>attempt_identifier = ''198.51.100.4'', attempt_date = ''2024-05-01'',
       attempt_timestamp = ''2024-05-01T09:30:00.005Z''\<rparr>] \<and>
   (\<forall>d tx ty won base.
      fst (handleClick env0 10 10 ''198.51.100.4'' ledger0) \<noteq> Win d tx ty won base)"
proof -
  note win = handleClick_win [where env = env0 and u = "''198.51.100.4''" and db = ledger0,
      OF reachable_ledger0 target0]
  have hit: "\<not> invalidCoordinates 13 14 \<and>
     \<not> hasAttemptedToday ''198.51.100.4'' (isoDate (click_clock env0)) ledger0 \<and>
     (13::real) = of_int (pixel_x \<lparr>pixel_x = 13, pixel_y = 14, pixel_date = ''2024-05-01''\<rparr>) \<and>
     (14::real) = of_int (pixel_y \<lparr>pixel_x = 13, pixel_y = 14, pixel_date = ''2024-05-01''\<rparr>)"
    using valid_13_14 gate0 by simp
  from win [of 13 14, THEN conjunct2, THEN conjunct2, rule_format, OF hit]
  obtain row r db' where run:
    "jackpot_state ledger0 = Some row"
    "handleClick env0 13 14 ''198.51.100.4'' ledger0 = (Win 0 13 14 (current_amount row) 100, db')"
    "jackpot_state db' = Some (row\<lparr>current_amount := 100, last_update := update_clock env0,
        last_modified_by := ''198.51.100.4'', version := version row + 1\<rparr>)"
    "jackpot_history db' = jackpot_history ledger0 @
        [\<lparr>timestamp = history_clock env0, previous_amount = current_amount row, new_amount = 100,
          action_type = ''JACKPOT_WIN'', user_id = ''198.51.100.4''\<rparr>]"
    "click_attempts db' = click_attempts ledger0 @
        [\<lparr>attempt_identifier = ''198.51.100.4'', attempt_date = isoDate (click_clock env0),
          attempt_timestamp = attempt_clock env0\<rparr>]"
    "find (\<lambda>r. target_date r = isoDate (target_clock env0)) (daily_target ledger0) = Some r"
    "find (\<lambda>r. target_date r = isoDate (target_clock env0)) (daily_target db') =
        (if isoDate (force_clock env0) = isoDate (target_clock env0)
         then Some (r\<lparr>target_x := Math_floor (force_random_x env0 * 1000),
                target_y := Math_floor (force_random_y env0 * 1000),
                target_version := target_version r + 1\<rparr>)
         else Some r)"
    by auto
  have row: "row = \<lparr>current_amount = 100, last_update = ''2024-05-01T08:00:00.000Z'',
      last_modified_by = ''system'', version = 1\<rparr>"
    using run(1) by (simp add: row0)
  have r: "r = \<lparr>target_x = 13, target_y = 14, target_date = ''2024-05-01'', target_version = 1\<rparr>"
    using run(6) by (simp add: ledger0_value env0_def isoDate_examples)
  have outcome: "fst (handleClick env0 13 14 ''198.51.100.4'' ledger0) = Win 0 13 14 100 100"
    using run(2) by (simp add: row)
  have db': "snd (handleClick env0 13 14 ''198.51.100.4'' ledger0) = db'"
    using run(2) by simp
  have target': "find (\<lambda>r. target_date r = ''2024-05-01'') (daily_target db') =
     Some \<lparr>target_x = 750, target_y = 125, target_date = ''2024-05-01'', target_version = 2\<rparr>"
    using run(7) by (simp add: r env0_def isoDate_examples Math_floor_def)
  have state': "jackpot_state db' = Some \<lparr>current_amount = 100,
      last_update = ''2024-05-01T09:30:00.002Z'', last_modified_by = ''198.51.100.4'', version = 2\<rparr>"
    using run(3) by (simp add: row env0_def)
  have history': "jackpot_history db' =
     [\<lparr>timestamp = ''2024-05-01T09:30:00.003Z'', previous_amount = 100, new_amount = 100,
       action_type = ''JACKPOT_WIN'', user_id = ''198.51.100.4''\<rparr>]"
    using run(4) by (simp add: row env0_def ledger0_value)
  have attempts': "click_attempts db' =
     [\<lparr>attempt_identifier = ''198.51.100.4'', attempt_date = ''2024-05-01'',
       attempt_timestamp = ''2024-05-01T09:30:00.005Z''\<rparr>]"
    using run(5) by (simp add: env0_def ledger0_value isoDate_examples)
  have off: "\<forall>d tx ty won base.
      fst (handleClick env0 10 10 ''198.51.100.4'' ledger0) \<noteq> Win d tx ty won base"
    using win [of 10 10, THEN conjunct1] by simp
  show ?thesis
    using reachable_ledger0 valid_13_14 gate0 [of "''198.51.100.4''" "isoDate (click_clock env0)"]
      outcome target' state' history' attempts' off
    by (simp add: db')
qed

text \<open>
  C4 as stated fails twice. When the call straddles midnight the click on the target
  wins, and the target of the day it was read on keeps its version and its coordinates,
  because forceNewDailyTarget reads the clock again and inserts the target of the next
  date. And the distance alone does not decide: a caller who has used the day's attempt
  and then clicks on the target is answered with the attempt-limit error, not with a Win.
\<close>

theorem handleClick_win_counterexample:
  "fst (handleClick envMidnight 13 14 ''198.51.100.4'' ledger0) = Win 0 13 14 100 100 \<and>
   daily_target ledger0 =
     [\<lparr>target_x = 13, target_y = 14, target_date = ''2024-05-01'', target_version = 1\<rparr>] \<and>
   daily_target (snd (handleClick envMidnight 13 14 ''198.51.100.4'' ledger0)) =
     [\<lparr>target_x = 13, target_y = 14, target_date = ''2024-05-01'', target_version = 1\<rparr>,
      \<lparr>target_x = 750, target_y = 125, target_date = ''2024-05-02'', target_version = 1\<rparr>] \<and>
   fst (handleClick env0 10 10 ''203.0.113.9'' ledger0) = Miss 5 13 14 (100001 / 1000) \<and>
   daily_target (snd (handleClick env0 10 10 ''203.0.113.9'' ledger0)) =
     [\<lparr>target_x = 13, target_y = 14, target_date = ''2024-05-01'', target_version = 1\<rparr>] \<and>
   fst (handleClick env1 13 14 ''203.0.113.9''
          (snd (handleClick env0 10 10 ''203.0.113.9'' ledger0))) =
     ClickError attempt_limit ''You have already made your attempt for today.''"
proof -
  have again: "fst (handleClick env1 13 14 ''203.0.113.9''
          (snd (handleClick env0 10 10 ''203.0.113.9'' ledger0))) =
     ClickError attempt_limit ''You have already made your attempt for today.''"
    by (simp only: second_click_on_target fst_conv)
  have before: "daily_target ledger0 =
     [\<lparr>target_x = 13, target_y = 14, target_date = ''2024-05-01'', target_version = 1\<rparr>]"
    by (simp add: ledger0_value)
  show ?thesis using again before by (simp add: midnight_click first_click0)
qed

subsection \<open>Miss\<close>

text \<open>
  C5: on a miss (the click is not on the target, so the rounded distance is above 0)
  handleClick sets the jackpot to the pre-click amount plus 0.001 rounded to 3 decimals:
  the multiple of 0.001 nearest to it, halves going up, which is the pre-click amount plus
  0.001 itself when that amount is a multiple of 0.001, as it is on every ledger the
  program has produced. It appends one INCREMENT history
  entry from the pre-click to the stored amount, records the attempt, and returns a Miss
  with the new amount, the target and the distance rounded the same way. The click has
  passed validation and the gate, the jackpot row exists and the new amount is within the
  ceiling.
\<close>

theorem handleClick_miss:
  assumes valid: "\<not> invalidCoordinates x y"
    and gate: "\<not> hasAttemptedToday u (isoDate (click_clock env)) db"
    and row: "jackpot_state db = Some row"
    and target: "getOrCreateDailyTargetPixel (target_clock env) (target_random_x env)
                   (target_random_y env) db = (targetPixel, db1)"
    and miss: "x \<noteq> of_int (pixel_x targetPixel) \<or> y \<noteq> of_int (pixel_y targetPixel)"
    and nonneg: "0 \<le> current_amount row"
    and ceiling: "current_amount row + 1 / 1000 < 10000000 + 1 / 2000"
  shows "\<exists>amount dist (k::int) (l::int).
           handleClick env x y u db =
             (Miss dist (pixel_x targetPixel) (pixel_y targetPixel) amount,
              db1\<lparr>jackpot_state := Some (row\<lparr>current_amount := amount,
                     last_update := update_clock env, last_modified_by := u,
                     version := version row + 1\<rparr>),
                  jackpot_history := jackpot_history db @
                    [\<lparr>timestamp = history_clock env, previous_amount = current_amount row,
                      new_amount = amount, action_type = ''INCREMENT'', user_id = u\<rparr>],
                  click_attempts := click_attempts db @
                    [\<lparr>attempt_identifier = u, attempt_date = isoDate (click_clock env),
                      attempt_timestamp = attempt_clock env\<rparr>]\<rparr>) \<and>
           amount = of_int k / 1000 \<and>
           current_amount row + 1 / 1000 - 1 / 2000 < amount \<and>
           amount \<le> current_amount row + 1 / 1000 + 1 / 2000 \<and>
           ((\<exists>j::int. current_amount row = of_int j / 1000) \<or> reachable db \<longrightarrow>
              amount = current_amount row + 1 / 1000) \<and>
           dist = of_int l / 1000 \<and> 0 < dist \<and>
           sqrt ((of_int (pixel_x targetPixel) - x)\<^sup>2 + (of_int (pixel_y targetPixel) - y)\<^sup>2)
             - 1 / 2000 < dist \<and>
           dist \<le> sqrt ((of_int (pixel_x targetPixel) - x)\<^sup>2 +
                        (of_int (pixel_y targetPixel) - y)\<^sup>2) + 1 / 2000"
proof -
  define amount where "amount = Math_round ((current_amount row + 1 / 1000) * 1000) / 1000"
  define dist where "dist = roundedDistance targetPixel x y"
  have cur: "getJackpot db = current_amount row" using row by (simp add: getJackpot_def)
  from round3_spec [of "current_amount row + 1 / 1000"]
  obtain k :: int where k: "amount = of_int k / 1000"
    "current_amount row + 1 / 1000 - 1 / 2000 < amount"
    "amount \<le> current_amount row + 1 / 1000 + 1 / 2000"
    unfolding amount_def by auto
  from round3_spec [of "distance targetPixel x y"]
  obtain l :: int where l: "dist = of_int l / 1000"
    "distance targetPixel x y - 1 / 2000 < dist" "dist \<le> distance targetPixel x y + 1 / 2000"
    unfolding dist_def roundedDistance_def by auto
  have on_grid: "amount = current_amount row + 1 / 1000"
    if "\<exists>j::int. current_amount row = of_int j / 1000"
    using that unfolding amount_def by (auto simp only: round3_add_on_grid)
  have produced: "\<exists>j::int. current_amount row = of_int j / 1000" if "reachable db"
    using reachable_jackpot_grid [OF that] row by auto
  have exact: "(\<exists>j::int. current_amount row = of_int j / 1000) \<or> reachable db \<longrightarrow>
      amount = current_amount row + 1 / 1000"
    using on_grid produced by blast
  have rd: "dist \<noteq> 0"
    using miss unfolding dist_def roundedDistance_zero_iff [OF valid] by simp
  have pos: "0 < dist"
    using rd roundedDistance_nonneg [of targetPixel x y] unfolding dist_def by simp
  have "0 \<le> (current_amount row + 1 / 1000) * 1000" using nonneg by simp
  then have "0 \<le> Math_round ((current_amount row + 1 / 1000) * 1000)"
    by (rule Math_round_nonneg)
  then have lo: "\<not> amount < 0" unfolding amount_def by simp
  have "amount \<le> 10000000"
    unfolding amount_def round3_le_ceiling by (rule ceiling)
  then have hi: "\<not> 10000000 < amount" by simp
  have run: "handleClick env x y u db =
             (Miss dist (pixel_x targetPixel) (pixel_y targetPixel) amount,
              db1\<lparr>jackpot_state := Some (row\<lparr>current_amount := amount,
                     last_update := update_clock env, last_modified_by := u,
                     version := version row + 1\<rparr>),
                  jackpot_history := jackpot_history db @
                    [\<lparr>timestamp = history_clock env, previous_amount = current_amount row,
                      new_amount = amount, action_type = ''INCREMENT'', user_id = u\<rparr>],
                  click_attempts := click_attempts db @
                    [\<lparr>attempt_identifier = u, attempt_date = isoDate (click_clock env),
                      attempt_timestamp = attempt_clock env\<rparr>]\<rparr>)"
    unfolding handleClick_passes_gate [OF valid gate] handleClick_try_result
    using row gate lo hi rd unfolding amount_def dist_def by (simp add: target cur Let_def)
  show ?thesis
    using run k exact l pos unfolding distance_def by blast
qed

theorem handleClick_miss_witness:
  "\<not> invalidCoordinates 12 13 \<and>
   \<not> hasAttemptedToday ''203.0.113.9'' (isoDate (click_clock env0)) ledgerOffGrid \<and>
   jackpot_state ledgerOffGrid = Some \<lparr>current_amount = 1000004 / 10000,
     last_update = ''2024-04-30T12:00:00.000Z'', last_modified_by = ''import'', version = 3\<rparr> \<and>
   fst (handleClick env0 12 13 ''203.0.113.9'' ledgerOffGrid) =
     Miss (1414 / 1000) 13 14 (100001 / 1000) \<and>
   jackpot_state (snd (handleClick env0 12 13 ''203.0.113.9'' ledgerOffGrid)) =
     Some \<lparr>current_amount = 100001 / 1000, last_update = ''2024-05-01T09:30:00.002Z'',
            last_modified_by = ''203.0.113.9'', version = 4\<rparr> \<and>
   jackpot_history (snd (handleClick env0 12 13 ''203.0.113.9'' ledgerOffGrid)) =
     [\<lparr>timestamp = ''2024-05-01T09:30:00.003Z'', previous_amount = 1000004 / 10000,
       new_amount = 100001 / 1000, action_type = ''INCREMENT'', user_id = ''203.0.113.9''\<rparr>] \<and>
   click_attempts (snd (handleClick env0 12 13 ''203.0.113.9'' ledgerOffGrid)) =
     [\<lparr>attempt_identifier = ''203.0.113.9'', attempt_date = ''2024-05-01'',
       attempt_timestamp = ''2024-05-01T09:30:00.005Z''\<rparr>]"
proof -
  have miss: "(12::real) \<noteq> of_int (pixel_x \<lparr>pixel_x = 13, pixel_y = 14, pixel_date = ''2024-05-01''\<rparr>)
      \<or> (13::real) \<noteq> of_int (pixel_y \<lparr>pixel_x = 13, pixel_y = 14, pixel_date = ''2024-05-01''\<rparr>)"
    by simp
  have nonneg: "0 \<le> current_amount \<lparr>current_amount = 1000004 / 10000,
     last_update = ''2024-04-30T12:00:00.000Z'', last_modified_by = ''import'', version = 3\<rparr>"
    by simp
  have ceiling: "current_amount \<lparr>current_amount = 1000004 / 10000,
     last_update = ''2024-04-30T12:00:00.000Z'', last_modified_by = ''import'', version = 3\<rparr>
       + 1 / 1000 < 10000000 + 1 / 2000"
    by simp
  from handleClick_miss [where x = 12 and y = 13 and u = "''203.0.113.9''" and env = env0
      and db = ledgerOffGrid, OF valid_12_13 gateOffGrid rowOffGrid targetOffGrid miss nonneg
      ceiling]
  obtain amount dist :: real and k l :: int where
    run: "handleClick env0 12 13 ''203.0.113.9'' ledgerOffGrid =
             (Miss dist 13 14 amount,
              ledgerOffGrid\<lparr>jackpot_state := Some \<lparr>current_amount = amount,
                     last_update = update_clock env0, last_modified_by = ''203.0.113.9'',
                     version = 4\<rparr>,
                  jackpot_history := jackpot_history ledgerOffGrid @
                    [\<lparr>timestamp = history_clock env0, previous_amount = 1000004 / 10000,
                      new_amount = amount, action_type = ''INCREMENT'',
                      user_id = ''203.0.113.9''\<rparr>],
                  click_attempts := click_attempts ledgerOffGrid @
                    [\<lparr>attempt_identifier = ''203.0.113.9'',
                      attempt_date = isoDate (click_clock env0),
                      attempt_timestamp = attempt_clock env0\<rparr>]\<rparr>)"
    and k: "amount = of_int k / 1000" "1000004 / 10000 + 1 / 1000 - 1 / 2000 < amount"
      "amount \<le> 1000004 / 10000 + 1 / 1000 + 1 / 2000"
    and l: "dist = of_int l / 1000" "sqrt 2 - 1 / 2000 < dist" "dist \<le> sqrt 2 + 1 / 2000"
    by auto
  have "100000 < k" "k < 100002" using k by simp_all
  then have k': "k = 100001" by simp
  have "1413 < l" "l < 1415" using l sqrt_2_bounds by simp_all
  then have l': "l = 1414" by simp
  have amount: "amount = 100001 / 1000" using k(1) k' by simp
  have dist: "dist = 1414 / 1000" using l(1) l' by simp
  show ?thesis
    using valid_12_13 gateOffGrid [of "''203.0.113.9''" "isoDate (click_clock env0)"] rowOffGrid
    by (simp add: run amount dist) (simp add: env0_def ledgerOffGrid_value isoDate_examples)
qed

subsection \<open>The timer tick\<close>

text \<open>
  C6: a successful performAutoIncrement sets the jackpot to the previous amount plus 0.01
  rounded to 3 decimals: the multiple of 0.001 nearest to it, halves going up, which is
  the previous amount plus 0.01 itself when that amount is a multiple of 0.001, as it is
  on every ledger the program has produced. It appends
  one AUTO_INCREMENT history entry whose actor is "system", and changes nothing else: the
  targets and the attempts are as before.
\<close>

theorem performAutoIncrement_success:
  assumes "performAutoIncrement env db = (TickSuccess amount, db')"
  shows "\<exists>row (k::int). jackpot_state db = Some row \<and>
           amount = of_int k / 1000 \<and>
           current_amount row + 1 / 100 - 1 / 2000 < amount \<and>
           amount \<le> current_amount row + 1 / 100 + 1 / 2000 \<and>
           ((\<exists>j::int. current_amount row = of_int j / 1000) \<or> reachable db \<longrightarrow>
              amount = current_amount row + 1 / 100) \<and>
           jackpot_state db' = Some (row\<lparr>current_amount := amount,
              last_update := tick_update_clock env, last_modified_by := ''system'',
              version := version row + 1\<rparr>) \<and>
           jackpot_history db' = jackpot_history db @
              [\<lparr>timestamp = tick_history_clock env, previous_amount = current_amount row,
                new_amount = amount, action_type = ''AUTO_INCREMENT'', user_id = ''system''\<rparr>] \<and>
           daily_target db' = daily_target db \<and>
           click_attempts db' = click_attempts db"
proof (cases "jackpot_state db")
  case None
  with assms show ?thesis
    by (simp add: performAutoIncrement_def Let_def autoIncrementTransaction_result
        split: if_splits)
next
  case (Some row)
  then have cur: "getJackpot db = current_amount row" by (simp add: getJackpot_def)
  have amount: "amount = Math_round ((current_amount row + 1 / 100) * 1000) / 1000"
    using assms Some
    by (auto simp add: performAutoIncrement_def Let_def autoIncrementTransaction_result cur
        split: if_splits)
  from round3_spec [of "current_amount row + 1 / 100"]
  obtain k :: int where k: "amount = of_int k / 1000"
    "current_amount row + 1 / 100 - 1 / 2000 < amount"
    "amount \<le> current_amount row + 1 / 100 + 1 / 2000"
    unfolding amount by auto
  have on_grid: "amount = current_amount row + 1 / 100"
    if "\<exists>j::int. current_amount row = of_int j / 1000"
    using that unfolding amount by (auto simp only: round3_add_cent_on_grid)
  have produced: "\<exists>j::int. current_amount row = of_int j / 1000" if "reachable db"
    using reachable_jackpot_grid [OF that] Some by auto
  have exact: "(\<exists>j::int. current_amount row = of_int j / 1000) \<or> reachable db \<longrightarrow>
      amount = current_amount row + 1 / 100"
    using on_grid produced by blast
  have state: "jackpot_state db' = Some (row\<lparr>current_amount := amount,
              last_update := tick_update_clock env, last_modified_by := ''system'',
              version := version row + 1\<rparr>) \<and>
           jackpot_history db' = jackpot_history db @
              [\<lparr>timestamp = tick_history_clock env, previous_amount = current_amount row,
                new_amount = amount, action_type = ''AUTO_INCREMENT'', user_id = ''system''\<rparr>] \<and>
           daily_target db' = daily_target db \<and>
           click_attempts db' = click_attempts db"
    using assms Some
    by (auto simp add: performAutoIncrement_def Let_def autoIncrementTransaction_result cur
        Math_round_Math_round split: if_splits)
  show ?thesis using Some k exact state by blast
qed

theorem performAutoIncrement_success_witness:
  "performAutoIncrement tick0 ledgerOffGrid =
     (TickSuccess (10001 / 100),
      \<lparr>jackpot_state = Some \<lparr>current_amount = 10001 / 100,
          last_update = ''2024-05-01T09:35:00.000Z'', last_modified_by = ''system'',
          version = 4\<rparr>,
        jackpot_history = [\<lparr>timestamp = ''2024-05-01T09:35:00.001Z'',
          previous_amount = 1000004 / 10000, new_amount = 10001 / 100,
          action_type = ''AUTO_INCREMENT'', user_id = ''system''\<rparr>],
        daily_target = [\<lparr>target_x = 13, target_y = 14, target_date = ''2024-05-01'',
          target_version = 1\<rparr>],
        click_attempts = []\<rparr>) \<and>
   (\<exists>k::int. (10001 / 100 :: real) = of_int k / 1000 \<and>
      (1000004 / 10000 + 1 / 100 - 1 / 2000 :: real) < 10001 / 100 \<and>
      (10001 / 100 :: real) \<le> 1000004 / 10000 + 1 / 100 + 1 / 2000) \<and>
   daily_target (snd (performAutoIncrement tick0 ledgerOffGrid)) = daily_target ledgerOffGrid \<and>
   click_attempts (snd (performAutoIncrement tick0 ledgerOffGrid)) =
     click_attempts ledgerOffGrid \<and>
   fst (performAutoIncrement tick0 ledger0) = TickSuccess (100 + 1 / 100)"
proof -
  from performAutoIncrement_success [OF tick_offgrid]
  obtain row :: jackpot_state_row and k :: int where
    row: "jackpot_state ledgerOffGrid = Some row"
    and k: "(10001 / 100 :: real) = of_int k / 1000"
      "current_amount row + 1 / 100 - 1 / 2000 < 10001 / 100"
      "10001 / 100 \<le> current_amount row + 1 / 100 + 1 / 2000"
    and rest: "daily_target (snd (performAutoIncrement tick0 ledgerOffGrid)) =
        daily_target ledgerOffGrid"
      "click_attempts (snd (performAutoIncrement tick0 ledgerOffGrid)) =
        click_attempts ledgerOffGrid"
    by (auto simp add: tick_offgrid)
  have pre: "current_amount row = 1000004 / 10000" using row by (auto simp add: rowOffGrid)
  have grid: "\<exists>k::int. (10001 / 100 :: real) = of_int k / 1000 \<and>
      (1000004 / 10000 + 1 / 100 - 1 / 2000 :: real) < 10001 / 100 \<and>
      (10001 / 100 :: real) \<le> 1000004 / 10000 + 1 / 100 + 1 / 2000"
    using k unfolding pre by blast
  have "fst (performAutoIncrement tick0 ledger0) = TickSuccess (100 + 1 / 100)"
    by (simp add: first_tick0)
  with grid rest show ?thesis by (simp add: tick_offgrid)
qed

subsection \<open>The jackpot row in reachable ledgers\<close>

text \<open>
  C7: in every reachable ledger the jackpot row exists, its amount is at least 0 and at
  most 10,000,000, and every committed jackpot mutation (a click that returns Win or
  Miss, a timer tick that returns success) leaves the version exactly 1 higher.
\<close>

theorem reachable_jackpot_invariant:
  assumes "reachable db"
  shows "\<exists>row. jackpot_state db = Some row \<and>
           0 \<le> current_amount row \<and> current_amount row \<le> 10000000 \<and>
           (\<forall>env x y u d tx ty won base db'.
              handleClick env x y u db = (Win d tx ty won base, db') \<longrightarrow>
              map_option version (jackpot_state db') = Some (version row + 1)) \<and>
           (\<forall>env x y u d tx ty a db'.
              handleClick env x y u db = (Miss d tx ty a, db') \<longrightarrow>
              map_option version (jackpot_state db') = Some (version row + 1)) \<and>
           (\<forall>tenv a db'.
              performAutoIncrement tenv db = (TickSuccess a, db') \<longrightarrow>
              map_option version (jackpot_state db') = Some (version row + 1))"
proof -
  from reachable_jackpot_bounds [OF assms]
  obtain row where row: "jackpot_state db = Some row" "0 \<le> current_amount row"
    "current_amount row \<le> 10000000" by auto
  have win: "map_option version (jackpot_state db') = Some (version row + 1)"
    if "handleClick env x y u db = (Win d tx ty won base, db')"
    for env x y u d tx ty won base db'
    using handleClick_jackpot_state [where env = env and x = x and y = y and u = u, OF row(1)]
      that by simp
  have miss: "map_option version (jackpot_state db') = Some (version row + 1)"
    if "handleClick env x y u db = (Miss d tx ty a, db')"
    for env x y u d tx ty a db'
    using handleClick_jackpot_state [where env = env and x = x and y = y and u = u, OF row(1)]
      that by simp
  have tick: "map_option version (jackpot_state db') = Some (version row + 1)"
    if "performAutoIncrement tenv db = (TickSuccess a, db')"
    for tenv a db'
    using performAutoIncrement_jackpot_state [where tenv = tenv, OF row(1)] that by simp
  show ?thesis using row win miss tick by blast
qed

theorem reachable_jackpot_invariant_witness:
  "reachable ledger0 \<and>
   jackpot_state ledger0 = Some \<lparr>current_amount = 100,
     last_update = ''2024-05-01T08:00:00.000Z'', last_modified_by = ''system'', version = 1\<rparr> \<and>
   fst (handleClick env0 10 10 ''203.0.113.9'' ledger0) = Miss 5 13 14 (100001 / 1000) \<and>
   map_option version (jackpot_state (snd (handleClick env0 10 10 ''203.0.113.9'' ledger0))) =
     Some 2 \<and>
   fst (performAutoIncrement tick0 ledger0) = TickSuccess (10001 / 100) \<and>
   map_option version (jackpot_state (snd (performAutoIncrement tick0 ledger0))) = Some 2"
proof -
  from reachable_jackpot_invariant [OF reachable_ledger0]
  obtain row where all: "jackpot_state ledger0 = Some row \<and>
           0 \<le> current_amount row \<and> current_amount row \<le> 10000000 \<and>
           (\<forall>env x y u d tx ty won base db'.
              handleClick env x y u ledger0 = (Win d tx ty won base, db') \<longrightarrow>
              map_option version (jackpot_state db') = Some (version row + 1)) \<and>
           (\<forall>env x y u d tx ty a db'.
              handleClick env x y u ledger0 = (Miss d tx ty a, db') \<longrightarrow>
              map_option version (jackpot_state db') = Some (version row + 1)) \<and>
           (\<forall>tenv a db'.
              performAutoIncrement tenv ledger0 = (TickSuccess a, db') \<longrightarrow>
              map_option version (jackpot_state db') = Some (version row + 1))" ..
  from all have row: "jackpot_state ledger0 = Some row" by (elim conjE)
  from all have miss: "\<forall>env x y u d tx ty a db'.
              handleClick env x y u ledger0 = (Miss d tx ty a, db') \<longrightarrow>
              map_option version (jackpot_state db') = Some (version row + 1)"
    by (elim conjE)
  from all have tick: "\<forall>tenv a db'.
              performAutoIncrement tenv ledger0 = (TickSuccess a, db') \<longrightarrow>
              map_option version (jackpot_state db') = Some (version row + 1)"
    by (elim conjE)
  have v: "version row = 1" using row by (auto simp add: row0)
  have a: "map_option version
             (jackpot_state (snd (handleClick env0 10 10 ''203.0.113.9'' ledger0))) = Some 2"
    using miss [rule_format, OF first_click0] v by (simp add: first_click0)
  have b: "map_option version (jackpot_state (snd (performAutoIncrement tick0 ledger0))) = Some 2"
    using tick [rule_format, OF first_tick0] v by (simp add: first_tick0)
  show ?thesis using reachable_ledger0 row0 a b by (simp add: first_click0 first_tick0)
qed

subsection \<open>Coordinates out of range\<close>

text \<open>
  C8: for integers x, y with x or y outside 0..999, handleClick returns the validation
  error and the ledger it leaves is the ledger it was given.
\<close>

theorem handleClick_out_of_range:
  "i < 0 \<or> 999 < i \<or> j < 0 \<or> 999 < j \<Longrightarrow>
     handleClick env (of_int i) (of_int j) userIdentifier db =
       (ClickError validation ''Invalid coordinates.'', db)"
  by (auto simp add: handleClick_def invalidCoordinates_def)

theorem handleClick_out_of_range_witness:
  "999 < (1000::int) \<and>
   handleClick env0 (of_int 1000) (of_int (- 1)) ''203.0.113.9'' ledger0 =
     (ClickError validation ''Invalid coordinates.'', ledger0)"
  using handleClick_out_of_range [of 1000 "- 1" env0 "''203.0.113.9''" ledger0] by simp

subsection \<open>A miss at the ceiling\<close>

text \<open>
  C9: when a miss would put the jackpot above the ceiling of 10,000,000, updateJackpot
  throws, the transaction is rolled back, handleClick returns the server error, and the
  attempt is not recorded: the caller has not used the day's attempt.
\<close>

theorem handleClick_miss_over_ceiling:
  assumes valid: "\<not> invalidCoordinates x y"
    and gate: "\<not> hasAttemptedToday u (isoDate (click_clock env)) db"
    and target: "getOrCreateDailyTargetPixel (target_clock env) (target_random_x env)
                   (target_random_y env) db = (targetPixel, db1)"
    and miss: "roundedDistance targetPixel x y \<noteq> 0"
    and over: "10000000 < Math_round ((getJackpot db + 1 / 1000) * 1000) / 1000"
  shows "fst (updateJackpot (Math_round ((getJackpot db + 1 / 1000) * 1000) / 1000) u
                (update_clock env) db1) = Inl (JsError ''Invalid jackpot amount'') \<and>
         handleClick env x y u db =
           (ClickError server_error ''An unexpected server error occurred.'', db1) \<and>
         jackpot_state db1 = jackpot_state db \<and>
         jackpot_history db1 = jackpot_history db \<and>
         click_attempts db1 = click_attempts db \<and>
         \<not> hasAttemptedToday u (isoDate (click_clock env)) db1"
proof -
  have same: "jackpot_state db1 = jackpot_state db" "jackpot_history db1 = jackpot_history db"
    "click_attempts db1 = click_attempts db"
    using getOrCreateDailyTargetPixel_other [of "target_clock env" "target_random_x env"
        "target_random_y env" db]
    by (simp_all add: target)
  have att: "\<not> hasAttemptedToday u (isoDate (click_clock env)) db1"
    using gate by (simp add: hasAttemptedToday_def same)
  have thrown: "fst (updateJackpot (Math_round ((getJackpot db + 1 / 1000) * 1000) / 1000) u
                (update_clock env) db1) = Inl (JsError ''Invalid jackpot amount'')"
    using over by (simp add: updateJackpot_result)
  have result: "handleClick env x y u db =
           (ClickError server_error ''An unexpected server error occurred.'', db1)"
    unfolding handleClick_passes_gate [OF valid gate] handleClick_try_result
    using miss over by (simp add: target Let_def split: option.splits)
  show ?thesis using same att thrown result by simp
qed

theorem handleClick_miss_over_ceiling_witness:
  "\<not> invalidCoordinates 10 10 \<and>
   \<not> hasAttemptedToday ''203.0.113.9'' (isoDate (click_clock env0)) ledgerCeiling \<and>
   roundedDistance \<lparr>pixel_x = 13, pixel_y = 14, pixel_date = ''2024-05-01''\<rparr> 10 10 = 5 \<and>
   Math_round ((getJackpot ledgerCeiling + 1 / 1000) * 1000) / 1000 = 10000000001 / 1000 \<and>
   handleClick env0 10 10 ''203.0.113.9'' ledgerCeiling =
     (ClickError server_error ''An unexpected server error occurred.'', ledgerCeiling) \<and>
   click_attempts ledgerCeiling = []"
proof -
  have miss: "roundedDistance \<lparr>pixel_x = 13, pixel_y = 14, pixel_date = ''2024-05-01''\<rparr> 10 10 \<noteq> 0"
    by (simp add: roundedDistance_3_4)
  have over: "10000000 < Math_round ((getJackpot ledgerCeiling + 1 / 1000) * 1000) / 1000"
    by (simp only: overCeiling)
  have run: "handleClick env0 10 10 ''203.0.113.9'' ledgerCeiling =
     (ClickError server_error ''An unexpected server error occurred.'', ledgerCeiling)"
    using handleClick_miss_over_ceiling [OF valid_10_10 gateCeiling targetCeiling miss over,
        of "''203.0.113.9''"]
    by simp
  show ?thesis
    using run valid_10_10 gateCeiling [of "''203.0.113.9''" "isoDate (click_clock env0)"]
      roundedDistance_3_4 [of "''2024-05-01''"] overCeiling
    by (simp add: ledgerCeiling_value)
qed

subsection \<open>getJackpot without a row\<close>

text \<open>
  C10: when the singleton jackpot row is absent, getJackpot returns the amount 0.
\<close>

theorem getJackpot_absent_row: "jackpot_state db = None \<Longrightarrow> getJackpot db = 0"
  by (simp add: getJackpot_def)

theorem getJackpot_absent_row_witness:
  "jackpot_state emptyDb = None \<and> getJackpot emptyDb = 0"
proof -
  have h: "jackpot_state emptyDb = None" by (simp add: emptyDb_def)
  show ?thesis using h getJackpot_absent_row [OF h] by simp
qed

end
